theory Spec2Isabelle
  imports Complex_Main "HOL-Library.AList"
begin

section \<open>Domain model (types/curriculum.ts)\<close>

text \<open>
  A JavaScript \<open>Date\<close> object holds a time value: a number of milliseconds since the
  epoch, or NaN (an "Invalid Date"). The relational operators compare the time values, and a
  comparison with NaN is false.
\<close>

datatype JSDate = DateOf int | InvalidDate

fun isNaN_getTime :: "JSDate \<Rightarrow> bool" where
  "isNaN_getTime InvalidDate = True"
| "isNaN_getTime (DateOf t) = False"

fun dateLt :: "JSDate \<Rightarrow> JSDate \<Rightarrow> bool" where
  "dateLt (DateOf a) (DateOf b) = (a < b)"
| "dateLt _ _ = False"

fun dateLe :: "JSDate \<Rightarrow> JSDate \<Rightarrow> bool" where
  "dateLe (DateOf a) (DateOf b) = (a \<le> b)"
| "dateLe _ _ = False"

definition dateGt :: "JSDate \<Rightarrow> JSDate \<Rightarrow> bool" where
  "dateGt a b = dateLt b a"

text \<open>
  The interfaces \<open>Course\<close>, \<open>Week\<close> and \<open>CurriculumState\<close>. The field \<open>id\<close> of a
  course and of a week are named \<open>course_id\<close> and \<open>week_id\<close>. An optional field is an
  \<open>option\<close>. Week ids and progress values are integers (a fractional or NaN number in
  these fields is outside the model). The type of an action is the string the reducer
  switches on.
\<close>

record Course =
  course_id :: string
  name :: string
  startDate :: "JSDate option"
  endDate :: "JSDate option"
  completed :: bool

record Week =
  week_id :: int
  title :: string
  courses :: "Course list"
  progress :: int

record CurriculumState =
  weeks :: "Week list"
  overallProgress :: int

record Payload =
  weekId :: "int option"
  courseId :: "string option"
  date :: "JSDate option"
  data :: "CurriculumState option"

record CurriculumAction =
  action_type :: string
  payload :: Payload

section \<open>Number arithmetic of the progress calculator\<close>

text \<open>
  JavaScript numbers are IEEE 754 binary64 values. A finite one is represented here by the
  rational it denotes. \<open>toDouble x\<close> is the binary64 value nearest to \<open>x\<close> (ties to the
  even significand), for \<open>x\<close> in the normal range: with \<open>2 ^ e \<le> |x| < 2 ^ (e + 1)\<close> the
  result is the multiple of \<open>2 ^ (e - 52)\<close> nearest to \<open>x\<close>. Division and multiplication
  return the correctly rounded exact result. \<open>Math.round\<close> returns the integer nearest
  to its argument, a tie going up.
\<close>

function bitLength :: "int \<Rightarrow> int" where
  "bitLength a = (if a \<le> 0 then 0 else 1 + bitLength (a div 2))"
  by auto
termination by (relation "measure nat") auto

declare bitLength.simps [simp del]

definition ilog2 :: "rat \<Rightarrow> int" where
  "ilog2 x = (let (a, b) = quotient_of x; d = bitLength a - bitLength b
              in if 2 powi d \<le> x then d else d - 1)"

definition roundTiesToEven :: "rat \<Rightarrow> int" where
  "roundTiesToEven x = (let f = \<lfloor>x\<rfloor>; r = x - of_int f
     in if r < 1/2 then f else if 1/2 < r then f + 1 else if even f then f else f + 1)"

definition toDouble :: "rat \<Rightarrow> rat" where
  "toDouble x = (if x = 0 then 0 else
     let u = 2 powi (ilog2 \<bar>x\<bar> - 52) in of_int (roundTiesToEven (x / u)) * u)"

definition divD :: "rat \<Rightarrow> rat \<Rightarrow> rat" where
  "divD x y = toDouble (x / y)"

definition mulD :: "rat \<Rightarrow> rat \<Rightarrow> rat" where
  "mulD x y = toDouble (x * y)"

definition Math_round :: "rat \<Rightarrow> int" where
  "Math_round x = \<lfloor>x + 1/2\<rfloor>"

section \<open>Progress engine (utils/progressCalculator.ts)\<close>

definition calculateWeekProgress :: "Course list \<Rightarrow> int" where
  "calculateWeekProgress cs =
     (if length cs = 0 then 0
      else let completedCourses = length (filter completed cs)
           in Math_round (mulD (divD (of_nat completedCourses) (of_nat (length cs))) 100))"

definition calculateOverallProgress :: "Week list \<Rightarrow> int" where
  "calculateOverallProgress ws =
     (let totalCourses = fold (\<lambda>week total. total + length (courses week)) ws 0
      in if totalCourses = 0 then 0
         else let completedCourses =
                    fold (\<lambda>week total. total + length (filter completed (courses week))) ws 0
              in Math_round (mulD (divD (of_nat completedCourses) (of_nat totalCourses)) 100))"

definition updateAllProgress :: "CurriculumState \<Rightarrow> CurriculumState" where
  "updateAllProgress state =
     (let updatedWeeks =
            map (\<lambda>week. week\<lparr>progress := calculateWeekProgress (courses week)\<rparr>) (weeks state)
      in \<lparr>weeks = updatedWeeks, overallProgress = calculateOverallProgress updatedWeeks\<rparr>)"

section \<open>State reducer (context/CurriculumContext.tsx)\<close>

text \<open>
  The guards of the reducer test the payload fields for falsiness: an absent field, the
  number \<open>0\<close> and the empty string are falsy; a \<open>Date\<close> and a state object are truthy.
  \<open>mapCourse\<close> is the nested \<open>map\<close> over weeks and courses that the first three cases of
  the reducer have in common; the ids it is given have passed the guard.
\<close>

fun falsyNumber :: "int option \<Rightarrow> bool" where
  "falsyNumber None = True"
| "falsyNumber (Some n) = (n = 0)"

fun falsyString :: "string option \<Rightarrow> bool" where
  "falsyString None = True"
| "falsyString (Some s) = (s = [])"

fun falsyObject :: "'a option \<Rightarrow> bool" where
  "falsyObject None = True"
| "falsyObject (Some x) = False"

definition mapCourse :: "int \<Rightarrow> string \<Rightarrow> (Course \<Rightarrow> Course) \<Rightarrow> CurriculumState \<Rightarrow> CurriculumState"
  where
  "mapCourse wid cid f state =
     state\<lparr>weeks :=
       map (\<lambda>week. if week_id week = wid
                    then week\<lparr>courses :=
                           map (\<lambda>course. if course_id course = cid then f course else course)
                               (courses week)\<rparr>
                    else week)
           (weeks state)\<rparr>"

definition curriculumReducer :: "CurriculumState \<Rightarrow> CurriculumAction \<Rightarrow> CurriculumState" where
  "curriculumReducer state action =
     (let p = payload action in
      if action_type action = ''SET_START_DATE'' then
        (if falsyNumber (weekId p) \<or> falsyString (courseId p) \<or> falsyObject (date p) then state
         else updateAllProgress
                (mapCourse (the (weekId p)) (the (courseId p))
                           (\<lambda>course. course\<lparr>startDate := date p\<rparr>) state))
      else if action_type action = ''SET_END_DATE'' then
        (if falsyNumber (weekId p) \<or> falsyString (courseId p) \<or> falsyObject (date p) then state
         else updateAllProgress
                (mapCourse (the (weekId p)) (the (courseId p))
                           (\<lambda>course. course\<lparr>endDate := date p\<rparr>) state))
      else if action_type action = ''TOGGLE_COMPLETION'' then
        (if falsyNumber (weekId p) \<or> falsyString (courseId p) then state
         else updateAllProgress
                (mapCourse (the (weekId p)) (the (courseId p))
                           (\<lambda>course. course\<lparr>completed := \<not> completed course\<rparr>) state))
      else if action_type action = ''LOAD_DATA'' then
        (case data p of None \<Rightarrow> state | Some d \<Rightarrow> updateAllProgress d)
      else state)"

section \<open>Date validator (utils/dateValidation.ts)\<close>

datatype ErrorType = INVALID_FORMAT | START_AFTER_END | FUTURE_DATE | INVALID_RANGE | REQUIRED_FIELD

record DateValidationResult =
  isValid :: bool
  errorMessage :: string
  errorType :: "ErrorType option"

text \<open>
  The keys of the message table \<open>DEFAULT_ERROR_MESSAGES\<close> and of \<open>customMessages\<close>. A table
  of custom messages is a partial map; spreading it over the defaults overrides the keys it
  has. (A table with a key whose value is \<open>undefined\<close>, which the spread would copy over
  the default, is outside the model: every key it has maps to a string. The text of a
  message does not enter the decisions of the validator.)
\<close>

datatype MessageKey =
  required_msg | invalidFormat | startAfterEnd | futureDate | pastDate
  | futureDateNotAllowed | beforeMin | afterMax

record DateValidationOptions =
  required :: "bool option"
  minDate :: "JSDate option"
  maxDate :: "JSDate option"
  warnFutureDates :: "bool option"
  requireFutureDates :: "bool option"
  disallowFutureDates :: "bool option"
  customMessages :: "(MessageKey \<rightharpoonup> string) option"

text \<open>
  What the validator reads from outside its arguments: the table of default messages (Korean
  text), the locale formatting of a date, the result of \<open>getTodayAtMidnight()\<close> and the
  current time \<open>new Date()\<close>.
\<close>

record ValidationEnv =
  DEFAULT_ERROR_MESSAGES :: "MessageKey \<Rightarrow> string"
  toLocaleDateString :: "JSDate \<Rightarrow> string"
  getTodayAtMidnight :: JSDate
  currentDate :: JSDate

fun truthyFlag :: "bool option \<Rightarrow> bool" where
  "truthyFlag None = False"
| "truthyFlag (Some b) = b"

definition mergeMessages ::
  "(MessageKey \<Rightarrow> string) \<Rightarrow> (MessageKey \<rightharpoonup> string) option \<Rightarrow> MessageKey \<Rightarrow> string" where
  "mergeMessages defaults custom k =
     (case custom of
        None \<Rightarrow> defaults k
      | Some c \<Rightarrow> (case c k of None \<Rightarrow> defaults k | Some m \<Rightarrow> m))"

text \<open>
  \<open>s.replace(pat, rep)\<close> with a string pattern replaces its first occurrence. (The special
  replacement patterns that start with a dollar sign are not modelled: the replacement here is
  a formatted date.) The key \<open>required\<close> of the message table is \<open>required_msg\<close>.
\<close>

fun replaceFirst :: "string \<Rightarrow> string \<Rightarrow> string \<Rightarrow> string" where
  "replaceFirst pat rep [] = (if pat = [] then rep else [])"
| "replaceFirst pat rep (c # cs) =
     (if take (length pat) (c # cs) = pat then rep @ drop (length pat) (c # cs)
      else c # replaceFirst pat rep cs)"

definition invalidResult :: "string \<Rightarrow> ErrorType \<Rightarrow> DateValidationResult" where
  "invalidResult msg t = \<lparr>isValid = False, errorMessage = msg, errorType = Some t\<rparr>"

definition validResult :: DateValidationResult where
  "validResult = \<lparr>isValid = True, errorMessage = [], errorType = None\<rparr>"

definition belowMin :: "JSDate \<Rightarrow> JSDate option \<Rightarrow> bool" where
  "belowMin d m = (case m of None \<Rightarrow> False | Some lo \<Rightarrow> dateLt d lo)"

definition aboveMax :: "JSDate \<Rightarrow> JSDate option \<Rightarrow> bool" where
  "aboveMax d m = (case m of None \<Rightarrow> False | Some hi \<Rightarrow> dateGt d hi)"

definition validateDate ::
  "ValidationEnv \<Rightarrow> JSDate option \<Rightarrow> DateValidationOptions \<Rightarrow> DateValidationResult" where
  "validateDate env date_arg options =
     (let messages = mergeMessages (DEFAULT_ERROR_MESSAGES env) (customMessages options) in
      if truthyFlag (required options) \<and> date_arg = None then
        invalidResult (messages required_msg) REQUIRED_FIELD
      else case date_arg of
        None \<Rightarrow> validResult
      | Some d \<Rightarrow>
          if isNaN_getTime d then invalidResult (messages invalidFormat) INVALID_FORMAT
          else if belowMin d (minDate options) then
            invalidResult
              (replaceFirst ''{minDate}'' (toLocaleDateString env (the (minDate options)))
                 (messages beforeMin))
              INVALID_RANGE
          else if aboveMax d (maxDate options) then
            invalidResult
              (replaceFirst ''{maxDate}'' (toLocaleDateString env (the (maxDate options)))
                 (messages afterMax))
              INVALID_RANGE
          else if truthyFlag (disallowFutureDates options) \<and> dateGt d (getTodayAtMidnight env) then
            invalidResult (messages futureDateNotAllowed) FUTURE_DATE
          else if truthyFlag (requireFutureDates options) \<and> dateLe d (getTodayAtMidnight env) then
            invalidResult (messages pastDate) FUTURE_DATE
          else if truthyFlag (warnFutureDates options) \<and> dateGt d (currentDate env) then
            invalidResult (messages futureDate) FUTURE_DATE
          else validResult)"

definition validateDateRange ::
  "ValidationEnv \<Rightarrow> JSDate option \<Rightarrow> JSDate option \<Rightarrow> DateValidationOptions
     \<Rightarrow> DateValidationResult" where
  "validateDateRange env start_arg end_arg options =
     (let messages = mergeMessages (DEFAULT_ERROR_MESSAGES env) (customMessages options) in
      case (start_arg, end_arg) of
        (Some s, Some e) \<Rightarrow>
          if isNaN_getTime s \<or> isNaN_getTime e then
            invalidResult (messages invalidFormat) INVALID_FORMAT
          else if dateGt s e then invalidResult (messages startAfterEnd) START_AFTER_END
          else validResult
      | _ \<Rightarrow> validResult)"

definition validateCourseDate ::
  "ValidationEnv \<Rightarrow> JSDate option \<Rightarrow> JSDate option \<Rightarrow> bool \<Rightarrow> DateValidationOptions
     \<Rightarrow> DateValidationResult" where
  "validateCourseDate env date_arg otherDate isStartDate options =
     (let singleDateValidation = validateDate env date_arg options in
      if \<not> isValid singleDateValidation then singleDateValidation
      else if date_arg \<noteq> None \<and> otherDate \<noteq> None then
        (let rangeValidation =
               validateDateRange env (if isStartDate then date_arg else otherDate)
                 (if isStartDate then otherDate else date_arg) options
         in if \<not> isValid rangeValidation then rangeValidation else validResult)
      else validResult)"

section \<open>Persistence adapter (utils/localStorage.ts)\<close>

subsection \<open>Exceptions and effects\<close>

text \<open>
  A thrown value is an instance of \<open>Error\<close> with a name, or some other value. A computation
  takes the state of the host (the browser's storage and clock) and returns a value or a
  thrown exception, with the new state. \<open>tryCatch\<close> is a \<open>try\<close> block with its \<open>catch\<close>
  handler. The calls of \<open>console\<close> have no effect on what the functions return and are left
  out.
\<close>

datatype Thrown = ErrorNamed string | NotAnError

definition returnJ :: "'a \<Rightarrow> 's \<Rightarrow> (Thrown + 'a) \<times> 's" where
  "returnJ x st = (Inr x, st)"

definition liftE :: "Thrown + 'a \<Rightarrow> 's \<Rightarrow> (Thrown + 'a) \<times> 's" where
  "liftE r st = (r, st)"

definition bindJ ::
  "('s \<Rightarrow> (Thrown + 'a) \<times> 's) \<Rightarrow> ('a \<Rightarrow> 's \<Rightarrow> (Thrown + 'b) \<times> 's) \<Rightarrow> 's \<Rightarrow> (Thrown + 'b) \<times> 's"
  where
  "bindJ m f st = (case m st of (Inl e, st1) \<Rightarrow> (Inl e, st1) | (Inr x, st1) \<Rightarrow> f x st1)"

definition tryCatch ::
  "('s \<Rightarrow> (Thrown + 'a) \<times> 's) \<Rightarrow> (Thrown \<Rightarrow> 's \<Rightarrow> (Thrown + 'a) \<times> 's) \<Rightarrow> 's \<Rightarrow> (Thrown + 'a) \<times> 's"
  where
  "tryCatch m handler st =
     (case m st of (Inl e, st1) \<Rightarrow> handler e st1 | (Inr x, st1) \<Rightarrow> (Inr x, st1))"

text \<open>
  The host: the three operations of \<open>localStorage\<close> that the adapter calls, each of which
  may throw, and the clock read by \<open>new Date()\<close>, as a time value.
\<close>

record 's Host =
  setItem :: "string \<Rightarrow> string \<Rightarrow> 's \<Rightarrow> (Thrown + unit) \<times> 's"
  removeItem :: "string \<Rightarrow> 's \<Rightarrow> (Thrown + unit) \<times> 's"
  getItem :: "string \<Rightarrow> 's \<Rightarrow> (Thrown + string option) \<times> 's"
  dateNow :: "'s \<Rightarrow> (Thrown + int) \<times> 's"

subsection \<open>Stored data and JSON values\<close>

text \<open>
  The interface \<open>StoredData\<close>. An object used as a dictionary is an association list of
  its own properties, written with \<open>AList.update\<close> and read with \<open>map_of\<close>; the order of
  the properties is not observed by any function here.
\<close>

record StoredCourse =
  stored_startDate :: "string option"
  stored_endDate :: "string option"
  stored_completed :: bool

record StoredData =
  version :: string
  lastUpdated :: string
  curriculum :: "(string \<times> (string \<times> StoredCourse) list) list"

text \<open>
  What \<open>JSON.parse\<close> returns, of type \<open>unknown\<close> to the adapter. The keys of an object
  it returns are distinct.
\<close>

datatype json =
  JNull | JBool bool | JNumber rat | JString string | JArray "json list"
  | JObject "(string \<times> json) list"

text \<open>
  The library functions the adapter calls: \<open>JSON.stringify\<close> (on a \<open>StoredData\<close>),
  \<open>JSON.parse\<close>, \<open>Date.prototype.toISOString\<close> on a valid time value, and the
  constructor \<open>new Date(string)\<close>; and the names of the members of \<open>Array.prototype\<close>,
  which depend on the edition of the language.
\<close>

record JSLib =
  JSON_stringify :: "StoredData \<Rightarrow> string"
  JSON_parse :: "string \<Rightarrow> Thrown + json"
  toISOString :: "int \<Rightarrow> string"
  newDateFromString :: "string \<Rightarrow> JSDate"
  arrayPrototypeMembers :: "string list"

text \<open>
  \<open>Number.prototype.toString\<close> on an integer: its decimal digits, with a sign. (From
  \<open>10 ^ 21\<close> on JavaScript prints an exponent; week ids of that size are outside the
  model.)
\<close>

definition digitChar :: "nat \<Rightarrow> char" where
  "digitChar d = ''0123456789'' ! d"

function showNat :: "nat \<Rightarrow> string" where
  "showNat n = (if n < 10 then [digitChar n] else showNat (n div 10) @ [digitChar (n mod 10)])"
  by auto
termination by (relation "measure id") auto

declare showNat.simps [simp del]

definition toStringInt :: "int \<Rightarrow> string" where
  "toStringInt i = (if i < 0 then CHR ''-'' # showNat (nat (- i)) else showNat (nat i))"

text \<open>
  Reading a JSON value as JavaScript does. \<open>entries\<close> lists the own enumerable properties of
  a value, those a \<open>for ... in\<close> loop visits: the members of an object, the elements of an
  array under their indices. \<open>getProp v k\<close> is the own property \<open>k\<close> of \<open>v\<close>, with
  \<open>None\<close> for \<open>undefined\<close>; it is \<open>v[k]\<close> for every key that \<open>v\<close> does not inherit
  (the \<open>length\<close> of an array and the members of the prototypes are inherited; they are the
  subject of \<open>inheritedTruthy\<close> below).
\<close>

fun truthy :: "json \<Rightarrow> bool" where
  "truthy JNull = False"
| "truthy (JBool b) = b"
| "truthy (JNumber n) = (n \<noteq> 0)"
| "truthy (JString s) = (s \<noteq> [])"
| "truthy (JArray xs) = True"
| "truthy (JObject kvs) = True"

fun truthyOpt :: "json option \<Rightarrow> bool" where
  "truthyOpt None = False"
| "truthyOpt (Some v) = truthy v"

fun typeofObject :: "json \<Rightarrow> bool" where
  "typeofObject JNull = True"
| "typeofObject (JArray xs) = True"
| "typeofObject (JObject kvs) = True"
| "typeofObject _ = False"

fun isObject :: "json option \<Rightarrow> bool" where
  "isObject (Some v) = (typeofObject v \<and> v \<noteq> JNull)"
| "isObject None = False"

fun typeofBoolean :: "json option \<Rightarrow> bool" where
  "typeofBoolean (Some (JBool b)) = True"
| "typeofBoolean _ = False"

fun typeofString :: "json option \<Rightarrow> bool" where
  "typeofString (Some (JString s)) = True"
| "typeofString _ = False"

fun entries :: "json \<Rightarrow> (string \<times> json) list" where
  "entries (JObject kvs) = kvs"
| "entries (JArray xs) = zip (map showNat [0..<length xs]) xs"
| "entries _ = []"

definition getProp :: "json \<Rightarrow> string \<Rightarrow> json option" where
  "getProp v k = map_of (entries v) k"

definition getPropOpt :: "json option \<Rightarrow> string \<Rightarrow> json option" where
  "getPropOpt v k = (case v of None \<Rightarrow> None | Some x \<Rightarrow> getProp x k)"

definition ownKeys :: "json \<Rightarrow> string list" where
  "ownKeys v = map fst (entries v)"

subsection \<open>The adapter\<close>

definition STORAGE_KEY :: string where
  "STORAGE_KEY = ''curriculum-progress-tracker''"

definition STORAGE_VERSION :: string where
  "STORAGE_VERSION = ''1.0.0''"

definition isLocalStorageAvailable :: "'s Host \<Rightarrow> 's \<Rightarrow> (Thrown + bool) \<times> 's" where
  "isLocalStorageAvailable host =
     tryCatch
       (bindJ (setItem host ''__localStorage_test__'' ''test'') (\<lambda>_.
        bindJ (removeItem host ''__localStorage_test__'') (\<lambda>_.
        returnJ True)))
       (\<lambda>error. returnJ False)"

definition validCourseData :: "json option \<Rightarrow> bool" where
  "validCourseData courseData =
     (if \<not> isObject courseData then False
      else if \<not> typeofBoolean (getPropOpt courseData ''completed'') then False
      else if truthyOpt (getPropOpt courseData ''startDate'')
              \<and> \<not> typeofString (getPropOpt courseData ''startDate'') then False
      else if truthyOpt (getPropOpt courseData ''endDate'')
              \<and> \<not> typeofString (getPropOpt courseData ''endDate'') then False
      else True)"

definition validWeekData :: "json option \<Rightarrow> bool" where
  "validWeekData weekData =
     (if \<not> isObject weekData then False
      else list_all (\<lambda>courseId. validCourseData (getPropOpt weekData courseId))
             (case weekData of None \<Rightarrow> [] | Some w \<Rightarrow> ownKeys w))"

definition validateStoredData :: "json \<Rightarrow> bool" where
  "validateStoredData data_arg =
     (if \<not> truthy data_arg then False
      else if \<not> typeofObject data_arg then False
      else if data_arg = JNull then False
      else if \<not> truthyOpt (getProp data_arg ''version'') then False
      else if \<not> truthyOpt (getProp data_arg ''lastUpdated'') then False
      else if \<not> truthyOpt (getProp data_arg ''curriculum'') then False
      else if \<not> isObject (getProp data_arg ''curriculum'') then False
      else list_all (\<lambda>weekId. validWeekData (getPropOpt (getProp data_arg ''curriculum'') weekId))
             (case getProp data_arg ''curriculum'' of None \<Rightarrow> [] | Some c \<Rightarrow> ownKeys c))"


text \<open>
  \<open>curriculumStateToStoredData\<close>. The two nested \<open>forEach\<close> loops write into the
  dictionary \<open>curriculum\<close>; \<open>toISOString\<close> throws a \<open>RangeError\<close> on an invalid date,
  which ends the loops. \<open>foldE\<close> is a loop whose body may throw. The assignment
  \<open>curriculum[k][course.id] = {...}\<close> adds or replaces an own property of the week object,
  except for the key \<open>__proto__\<close>: that assignment calls the setter of
  \<open>Object.prototype\<close>, which makes the course data the prototype of the week object and
  stores no property. (A week key is a decimal number and never \<open>__proto__\<close>.)
\<close>

fun foldE :: "('a \<Rightarrow> 'b \<Rightarrow> Thrown + 'b) \<Rightarrow> 'a list \<Rightarrow> 'b \<Rightarrow> Thrown + 'b" where
  "foldE f [] acc = Inr acc"
| "foldE f (x # xs) acc = (case f x acc of Inl e \<Rightarrow> Inl e | Inr acc1 \<Rightarrow> foldE f xs acc1)"

fun toISOStringDate :: "JSLib \<Rightarrow> JSDate \<Rightarrow> Thrown + string" where
  "toISOStringDate lib (DateOf t) = Inr (toISOString lib t)"
| "toISOStringDate lib InvalidDate = Inl (ErrorNamed ''RangeError'')"

fun optionalISOString :: "JSLib \<Rightarrow> JSDate option \<Rightarrow> Thrown + string option" where
  "optionalISOString lib None = Inr None"
| "optionalISOString lib (Some d) =
     (case toISOStringDate lib d of Inl e \<Rightarrow> Inl e | Inr s \<Rightarrow> Inr (Some s))"

definition storedCourseOf :: "JSLib \<Rightarrow> Course \<Rightarrow> Thrown + StoredCourse" where
  "storedCourseOf lib course =
     (case optionalISOString lib (startDate course) of
        Inl e \<Rightarrow> Inl e
      | Inr sd \<Rightarrow>
          (case optionalISOString lib (endDate course) of
             Inl e \<Rightarrow> Inl e
           | Inr ed \<Rightarrow>
               Inr \<lparr>stored_startDate = sd, stored_endDate = ed,
                    stored_completed = completed course\<rparr>))"

definition putCourse ::
  "JSLib \<Rightarrow> string \<Rightarrow> Course \<Rightarrow> (string \<times> (string \<times> StoredCourse) list) list
     \<Rightarrow> Thrown + (string \<times> (string \<times> StoredCourse) list) list" where
  "putCourse lib k course cur =
     (case map_of cur k of
        None \<Rightarrow> Inl (ErrorNamed ''TypeError'')
      | Some weekObj \<Rightarrow>
          (case storedCourseOf lib course of
             Inl e \<Rightarrow> Inl e
           | Inr sc \<Rightarrow>
               if course_id course = ''__proto__'' then Inr cur
               else Inr (AList.update k (AList.update (course_id course) sc weekObj) cur)))"

definition putWeek ::
  "JSLib \<Rightarrow> Week \<Rightarrow> (string \<times> (string \<times> StoredCourse) list) list
     \<Rightarrow> Thrown + (string \<times> (string \<times> StoredCourse) list) list" where
  "putWeek lib week cur =
     (let k = toStringInt (week_id week)
      in foldE (putCourse lib k) (courses week) (AList.update k [] cur))"

definition curriculumStateToStoredData ::
  "'s Host \<Rightarrow> JSLib \<Rightarrow> CurriculumState \<Rightarrow> 's \<Rightarrow> (Thrown + StoredData) \<times> 's" where
  "curriculumStateToStoredData host lib state =
     bindJ (liftE (foldE (putWeek lib) (weeks state) [])) (\<lambda>cur.
     bindJ (dateNow host) (\<lambda>t.
     returnJ \<lparr>version = STORAGE_VERSION, lastUpdated = toISOString lib t, curriculum = cur\<rparr>))"

text \<open>
  \<open>storedDataToCurriculumState\<close> reads the parsed value. A property access on \<open>undefined\<close>
  or \<open>null\<close> throws a \<open>TypeError\<close>. The type guard \<open>validateStoredData\<close> has
  established that \<open>completed\<close> is a boolean and that a truthy date field is a string; the
  last equations of \<open>newDateOf\<close> and \<open>booleanOf\<close> stand for the values it excludes.

  The access \<open>weekData[course.id]\<close> has a key that the data chooses. Where the week object
  has no own property of that name it finds what the object inherits: a member of
  \<open>Object.prototype\<close> (a function, or for \<open>__proto__\<close> the prototype itself), for an array
  also a member of \<open>Array.prototype\<close> and the \<open>length\<close>. Such a value is truthy (a
  \<open>length\<close> of 0 apart) and has no \<open>startDate\<close>, \<open>endDate\<close> or \<open>completed\<close>, so the
  object built from it has \<open>completed: undefined\<close> and is not a \<open>Course\<close>. \<open>IllTyped\<close>
  stands for such an object, and for a week or a state that contains one. (The type guard
  has established that the week data is an object or an array. The other keys the adapter
  reads are fixed names or decimal numbers, which no prototype has.)
\<close>

datatype 'a loaded = WellTyped 'a | IllTyped

fun collectTyped :: "'a loaded list \<Rightarrow> 'a list loaded" where
  "collectTyped [] = WellTyped []"
| "collectTyped (x # xs) =
     (case x of
        IllTyped \<Rightarrow> IllTyped
      | WellTyped y \<Rightarrow>
          (case collectTyped xs of IllTyped \<Rightarrow> IllTyped | WellTyped ys \<Rightarrow> WellTyped (y # ys)))"

definition objectPrototypeMembers :: "string list" where
  "objectPrototypeMembers =
     [''constructor'', ''__defineGetter__'', ''__defineSetter__'', ''hasOwnProperty'',
      ''__lookupGetter__'', ''__lookupSetter__'', ''isPrototypeOf'', ''propertyIsEnumerable'',
      ''toString'', ''valueOf'', ''__proto__'', ''toLocaleString'']"

definition inheritedTruthy :: "JSLib \<Rightarrow> json option \<Rightarrow> string \<Rightarrow> bool" where
  "inheritedTruthy lib v k =
     (case v of
        Some (JObject kvs) \<Rightarrow> k \<in> set objectPrototypeMembers
      | Some (JArray xs) \<Rightarrow>
          k \<in> set objectPrototypeMembers \<or> k \<in> set (arrayPrototypeMembers lib)
          \<or> (k = ''length'' \<and> xs \<noteq> [])
      | _ \<Rightarrow> False)"

fun getPropE :: "json option \<Rightarrow> string \<Rightarrow> Thrown + json option" where
  "getPropE None k = Inl (ErrorNamed ''TypeError'')"
| "getPropE (Some JNull) k = Inl (ErrorNamed ''TypeError'')"
| "getPropE (Some v) k = Inr (getProp v k)"

fun mapE :: "('a \<Rightarrow> Thrown + 'b) \<Rightarrow> 'a list \<Rightarrow> Thrown + 'b list" where
  "mapE f [] = Inr []"
| "mapE f (x # xs) =
     (case f x of
        Inl e \<Rightarrow> Inl e
      | Inr y \<Rightarrow> (case mapE f xs of Inl e \<Rightarrow> Inl e | Inr ys \<Rightarrow> Inr (y # ys)))"

fun newDateOf :: "JSLib \<Rightarrow> json option \<Rightarrow> JSDate" where
  "newDateOf lib (Some (JString s)) = newDateFromString lib s"
| "newDateOf lib _ = InvalidDate"

fun booleanOf :: "json option \<Rightarrow> bool" where
  "booleanOf (Some (JBool b)) = b"
| "booleanOf _ = False"

definition overlayCourse :: "JSLib \<Rightarrow> json option \<Rightarrow> Course \<Rightarrow> Course loaded" where
  "overlayCourse lib weekData course =
     (let courseData = getPropOpt weekData (course_id course)
      in if courseData = None \<and> inheritedTruthy lib weekData (course_id course) then IllTyped
         else if \<not> truthyOpt courseData then WellTyped course
         else WellTyped
                (course
                   \<lparr>startDate :=
                      (if truthyOpt (getPropOpt courseData ''startDate'')
                       then Some (newDateOf lib (getPropOpt courseData ''startDate'')) else None),
                    endDate :=
                      (if truthyOpt (getPropOpt courseData ''endDate'')
                       then Some (newDateOf lib (getPropOpt courseData ''endDate'')) else None),
                    completed := booleanOf (getPropOpt courseData ''completed'')\<rparr>))"

definition overlayWeek :: "JSLib \<Rightarrow> json \<Rightarrow> Week \<Rightarrow> Thrown + Week loaded" where
  "overlayWeek lib storedData week =
     (case getPropE (Some storedData) ''curriculum'' of
        Inl e \<Rightarrow> Inl e
      | Inr cur \<Rightarrow>
          (case getPropE cur (toStringInt (week_id week)) of
             Inl e \<Rightarrow> Inl e
           | Inr weekData \<Rightarrow>
               if \<not> truthyOpt weekData then Inr (WellTyped week)
               else Inr (case collectTyped (map (overlayCourse lib weekData) (courses week)) of
                           IllTyped \<Rightarrow> IllTyped
                         | WellTyped updatedCourses \<Rightarrow>
                             WellTyped (week\<lparr>courses := updatedCourses\<rparr>))))"

definition storedDataToCurriculumState ::
  "JSLib \<Rightarrow> json \<Rightarrow> CurriculumState \<Rightarrow> Thrown + CurriculumState loaded" where
  "storedDataToCurriculumState lib storedData initialState =
     (case mapE (overlayWeek lib storedData) (weeks initialState) of
        Inl e \<Rightarrow> Inl e
      | Inr ws \<Rightarrow>
          Inr (case collectTyped ws of
                 IllTyped \<Rightarrow> IllTyped
               | WellTyped updatedWeeks \<Rightarrow>
                   WellTyped \<lparr>weeks = updatedWeeks, overallProgress = 0\<rparr>))"

text \<open>
  \<open>saveCurriculumState\<close>. The three statements that build, serialize and write the record
  occur twice in the source, in the \<open>try\<close> block and in the retry; they are
  \<open>writeStoredData\<close> here.
\<close>

definition writeStoredData ::
  "'s Host \<Rightarrow> JSLib \<Rightarrow> CurriculumState \<Rightarrow> 's \<Rightarrow> (Thrown + unit) \<times> 's" where
  "writeStoredData host lib state =
     bindJ (curriculumStateToStoredData host lib state) (\<lambda>storedData.
     setItem host STORAGE_KEY (JSON_stringify lib storedData))"

definition saveCurriculumState ::
  "'s Host \<Rightarrow> JSLib \<Rightarrow> CurriculumState \<Rightarrow> 's \<Rightarrow> (Thrown + bool) \<times> 's" where
  "saveCurriculumState host lib state =
     bindJ (isLocalStorageAvailable host) (\<lambda>available.
       if \<not> available then returnJ False
       else tryCatch
              (bindJ (writeStoredData host lib state) (\<lambda>_. returnJ True))
              (\<lambda>error.
                 if error = ErrorNamed ''QuotaExceededError'' then
                   tryCatch
                     (bindJ (removeItem host STORAGE_KEY) (\<lambda>_.
                      bindJ (writeStoredData host lib state) (\<lambda>_.
                      returnJ True)))
                     (\<lambda>retryError. returnJ False)
                 else returnJ False))"

definition loadCurriculumState ::
  "'s Host \<Rightarrow> JSLib \<Rightarrow> CurriculumState \<Rightarrow> 's
     \<Rightarrow> (Thrown + CurriculumState loaded option) \<times> 's"
  where
  "loadCurriculumState host lib initialState =
     bindJ (isLocalStorageAvailable host) (\<lambda>available.
       if \<not> available then returnJ None
       else tryCatch
              (bindJ (getItem host STORAGE_KEY) (\<lambda>serializedData.
                 if falsyString serializedData then returnJ None
                 else bindJ (liftE (JSON_parse lib (the serializedData))) (\<lambda>parsedData.
                   if \<not> validateStoredData parsedData then
                     bindJ (removeItem host STORAGE_KEY) (\<lambda>_. returnJ None)
                   else if getProp parsedData ''version'' \<noteq> Some (JString STORAGE_VERSION) then
                     bindJ (removeItem host STORAGE_KEY) (\<lambda>_. returnJ None)
                   else bindJ (liftE (storedDataToCurriculumState lib parsedData initialState))
                          (\<lambda>curriculumState. returnJ (Some curriculumState)))))
              (\<lambda>error.
                 bindJ (tryCatch (removeItem host STORAGE_KEY) (\<lambda>clearError. returnJ ()))
                   (\<lambda>_. returnJ None)))"

definition clearCurriculumState :: "'s Host \<Rightarrow> 's \<Rightarrow> (Thrown + bool) \<times> 's" where
  "clearCurriculumState host =
     bindJ (isLocalStorageAvailable host) (\<lambda>available.
       if \<not> available then returnJ False
       else tryCatch (bindJ (removeItem host STORAGE_KEY) (\<lambda>_. returnJ True))
              (\<lambda>error. returnJ False))"




subsection \<open>A storage that works, and one whose writes fail\<close>

text \<open>
  An in-memory \<open>localStorage\<close> with a clock. Each call of \<open>setItem\<close> takes the next entry
  of the list \<open>failures\<close>: it throws the exception given there, or writes when the entry is
  \<open>None\<close> or the list is empty. With an empty list the storage keeps what is written and
  never throws.
\<close>

record TestStorage =
  items :: "string \<rightharpoonup> string"
  clock :: int
  failures :: "Thrown option list"

definition testSetItem :: "string \<Rightarrow> string \<Rightarrow> TestStorage \<Rightarrow> (Thrown + unit) \<times> TestStorage" where
  "testSetItem k v st =
     (case failures st of
        [] \<Rightarrow> (Inr (), st\<lparr>items := (items st)(k \<mapsto> v)\<rparr>)
      | None # rest \<Rightarrow> (Inr (), st\<lparr>items := (items st)(k \<mapsto> v), failures := rest\<rparr>)
      | Some e # rest \<Rightarrow> (Inl e, st\<lparr>failures := rest\<rparr>))"

definition testHost :: "TestStorage Host" where
  "testHost =
     \<lparr>setItem = testSetItem,
      removeItem = (\<lambda>k st. (Inr (), st\<lparr>items := (items st)(k := None)\<rparr>)),
      getItem = (\<lambda>k st. (Inr (items st k), st)),
      dateNow = (\<lambda>st. (Inr (clock st), st))\<rparr>"

subsection \<open>Stored data and the JSON text written for it\<close>

text \<open>
  \<open>representsStoredData d j\<close>: the JSON value \<open>j\<close> has the properties of the stored data
  \<open>d\<close>, whatever the order in which an object lists them (\<open>JSON.stringify\<close> writes keys
  that are array indices first, in ascending order). A property whose value is
  \<open>undefined\<close> is not written, so an absent date is an absent property.
\<close>

definition sameDict ::
  "('v \<Rightarrow> json \<Rightarrow> bool) \<Rightarrow> (string \<times> 'v) list \<Rightarrow> (string \<times> json) list \<Rightarrow> bool" where
  "sameDict R xs ys =
     (set (map fst ys) = set (map fst xs)
      \<and> list_all (\<lambda>k. case map_of xs k of
                         None \<Rightarrow> False
                       | Some v \<Rightarrow> (case map_of ys k of None \<Rightarrow> False | Some j \<Rightarrow> R v j))
           (map fst xs))"

definition representsCourse :: "StoredCourse \<Rightarrow> json \<Rightarrow> bool" where
  "representsCourse c j =
     (case j of
        JObject kvs \<Rightarrow>
          map_of kvs ''startDate'' = map_option JString (stored_startDate c)
          \<and> map_of kvs ''endDate'' = map_option JString (stored_endDate c)
          \<and> map_of kvs ''completed'' = Some (JBool (stored_completed c))
      | _ \<Rightarrow> False)"

definition representsWeek :: "(string \<times> StoredCourse) list \<Rightarrow> json \<Rightarrow> bool" where
  "representsWeek weekObj j =
     (case j of JObject cs \<Rightarrow> sameDict representsCourse weekObj cs | _ \<Rightarrow> False)"

definition representsStoredData :: "StoredData \<Rightarrow> json \<Rightarrow> bool" where
  "representsStoredData d j =
     (case j of
        JObject props \<Rightarrow>
          map_of props ''version'' = Some (JString (version d))
          \<and> map_of props ''lastUpdated'' = Some (JString (lastUpdated d))
          \<and> (case map_of props ''curriculum'' of
                Some (JObject ws) \<Rightarrow> sameDict representsWeek (curriculum d) ws
              | _ \<Rightarrow> False)
      | _ \<Rightarrow> False)"

subsection \<open>The structural rules of the spec for a stored record\<close>






section \<open>Example states\<close>

definition mkCourse :: "string \<Rightarrow> bool \<Rightarrow> Course" where
  "mkCourse i c = \<lparr>course_id = i, name = i, startDate = None, endDate = None, completed = c\<rparr>"

definition week40State :: CurriculumState where
  "week40State =
     \<lparr>weeks = [\<lparr>week_id = 1, title = ''Week 1'',
                courses = replicate 23 (mkCourse ''a'' True) @ replicate 17 (mkCourse ''b'' False),
                progress = 0\<rparr>],
      overallProgress = 0\<rparr>"

definition staleState :: CurriculumState where
  "staleState =
     \<lparr>weeks = [\<lparr>week_id = 1, title = ''Week 1'', courses = [mkCourse ''1-1'' True],
                progress = 0\<rparr>],
      overallProgress = 0\<rparr>"

definition weekZeroState :: CurriculumState where
  "weekZeroState =
     \<lparr>weeks = [\<lparr>week_id = 0, title = ''Week 0'',
                courses = [\<lparr>course_id = ''0-1'', name = ''c'', startDate = None,
                            endDate = Some (DateOf 10), completed = False\<rparr>],
                progress = 0\<rparr>],
      overallProgress = 0\<rparr>"

definition weekOneState :: CurriculumState where
  "weekOneState =
     \<lparr>weeks = [\<lparr>week_id = 1, title = ''Week 1'',
                courses = [\<lparr>course_id = ''1-1'', name = ''c'', startDate = None,
                            endDate = Some (DateOf 10), completed = False\<rparr>],
                progress = 0\<rparr>],
      overallProgress = 0\<rparr>"

definition mkAction :: "string \<Rightarrow> int option \<Rightarrow> string option \<Rightarrow> JSDate option \<Rightarrow> CurriculumState option \<Rightarrow> CurriculumAction" where
  "mkAction t w c d s = \<lparr>action_type = t, payload = \<lparr>weekId = w, courseId = c, date = d, data = s\<rparr>\<rparr>"

definition exampleEnv :: ValidationEnv where
  "exampleEnv = \<lparr>DEFAULT_ERROR_MESSAGES = (\<lambda>k. ''message''),
                  toLocaleDateString = (\<lambda>d. ''2024. 1. 15.''),
                  getTodayAtMidnight = DateOf 1705276800000,
                  currentDate = DateOf 1705312800000\<rparr>"

definition noOptions :: DateValidationOptions where
  "noOptions = \<lparr>required = None, minDate = None, maxDate = None, warnFutureDates = None,
                 requireFutureDates = None, disallowFutureDates = None, customMessages = None\<rparr>"

definition exampleLib :: JSLib where
  "exampleLib =
     \<lparr>JSON_stringify = (\<lambda>d. ''{}''),
      JSON_parse = (\<lambda>s. Inl (ErrorNamed ''SyntaxError'')),
      toISOString = (\<lambda>t. ''2024-01-15T00:00:00.000Z''),
      newDateFromString = (\<lambda>s. InvalidDate),
      arrayPrototypeMembers = [''push'', ''pop'', ''map'', ''filter'', ''forEach'']\<rparr>"

definition emptyStorage :: TestStorage where
  "emptyStorage = \<lparr>items = Map.empty, clock = 1705276800000, failures = []\<rparr>"

definition quotaOnFirstWrite :: TestStorage where
  "quotaOnFirstWrite =
     \<lparr>items = Map.empty, clock = 1705276800000,
      failures = [None, Some (ErrorNamed ''QuotaExceededError'')]\<rparr>"













definition roundTripState :: CurriculumState where
  "roundTripState =
     \<lparr>weeks = [\<lparr>week_id = 2, title = ''Week 2'',
                courses = [\<lparr>course_id = ''constructor'', name = ''third'', startDate = None,
                            endDate = None, completed = True\<rparr>],
                progress = 100\<rparr>,
               \<lparr>week_id = 1, title = ''Week 1'',
                courses = [\<lparr>course_id = ''1-1'', name = ''first'',
                            startDate = Some (DateOf 1705276800000),
                            endDate = Some (DateOf 1705708800000), completed = True\<rparr>,
                           \<lparr>course_id = ''1-2'', name = ''second'', startDate = None,
                            endDate = None, completed = False\<rparr>],
                progress = 50\<rparr>],
      overallProgress = 67\<rparr>"

definition roundTripSeed :: CurriculumState where
  "roundTripSeed =
     \<lparr>weeks = [\<lparr>week_id = 2, title = ''Week 2'',
                courses = [mkCourse ''constructor'' False], progress = 0\<rparr>,
               \<lparr>week_id = 1, title = ''Week 1'',
                courses = [mkCourse ''1-1'' False, mkCourse ''1-2'' False], progress = 0\<rparr>],
      overallProgress = 0\<rparr>"

definition roundTripData :: StoredData where
  "roundTripData =
     \<lparr>version = ''1.0.0'', lastUpdated = ''2024-01-15T00:00:00.000Z'',
      curriculum =
        [(''2'', [(''constructor'', \<lparr>stored_startDate = None, stored_endDate = None,
                                    stored_completed = True\<rparr>)]),
         (''1'', [(''1-1'', \<lparr>stored_startDate = Some ''2024-01-15T00:00:00.000Z'',
                            stored_endDate = Some ''2024-01-20T00:00:00.000Z'',
                            stored_completed = True\<rparr>),
                 (''1-2'', \<lparr>stored_startDate = None, stored_endDate = None,
                            stored_completed = False\<rparr>)])]\<rparr>"

text \<open>
  The value parsed from the text written for \<open>roundTripData\<close>: the key \<open>1\<close> comes before
  the key \<open>2\<close>, although week 2 was stored first.
\<close>

definition roundTripJson :: json where
  "roundTripJson =
     JObject
       [(''version'', JString ''1.0.0''),
        (''lastUpdated'', JString ''2024-01-15T00:00:00.000Z''),
        (''curriculum'',
           JObject
             [(''1'', JObject
                        [(''1-1'', JObject [(''startDate'', JString ''2024-01-15T00:00:00.000Z''),
                                           (''endDate'', JString ''2024-01-20T00:00:00.000Z''),
                                           (''completed'', JBool True)]),
                         (''1-2'', JObject [(''completed'', JBool False)])]),
              (''2'', JObject [(''constructor'', JObject [(''completed'', JBool True)])])])]"

definition roundTripLib :: JSLib where
  "roundTripLib =
     \<lparr>JSON_stringify = (\<lambda>d. ''<saved>''),
      JSON_parse = (\<lambda>s. if s = ''<saved>'' then Inr roundTripJson
                         else Inl (ErrorNamed ''SyntaxError'')),
      toISOString = (\<lambda>t. if t = 1705708800000 then ''2024-01-20T00:00:00.000Z''
                          else ''2024-01-15T00:00:00.000Z''),
      newDateFromString = (\<lambda>s. if s = ''2024-01-20T00:00:00.000Z'' then DateOf 1705708800000
                                else if s = ''2024-01-15T00:00:00.000Z'' then DateOf 1705276800000
                                else InvalidDate),
      arrayPrototypeMembers = [''push'', ''pop'', ''map'', ''filter'', ''forEach'']\<rparr>"

text \<open>
  A state with a course whose id is \<open>__proto__\<close>, a seed of the same shape, the data that
  the save builds for the state, and the value parsed from the text written for that data,
  in which week 1 is an object without properties.
\<close>

definition protoState :: CurriculumState where
  "protoState =
     \<lparr>weeks = [\<lparr>week_id = 1, title = ''Week 1'',
                courses = [\<lparr>course_id = ''__proto__'', name = ''first'',
                            startDate = Some (DateOf 1705276800000), endDate = None,
                            completed = True\<rparr>],
                progress = 100\<rparr>],
      overallProgress = 100\<rparr>"

definition protoSeed :: CurriculumState where
  "protoSeed =
     \<lparr>weeks = [\<lparr>week_id = 1, title = ''Week 1'', courses = [mkCourse ''__proto__'' False],
                progress = 0\<rparr>],
      overallProgress = 0\<rparr>"

definition protoData :: StoredData where
  "protoData =
     \<lparr>version = ''1.0.0'', lastUpdated = ''2024-01-15T00:00:00.000Z'',
      curriculum = [(''1'', [])]\<rparr>"

definition protoJson :: json where
  "protoJson =
     JObject [(''version'', JString ''1.0.0''),
              (''lastUpdated'', JString ''2024-01-15T00:00:00.000Z''),
              (''curriculum'', JObject [(''1'', JObject [])])]"

definition protoLib :: JSLib where
  "protoLib =
     roundTripLib\<lparr>JSON_parse :=
       (\<lambda>s. if s = ''<saved>'' then Inr protoJson else Inl (ErrorNamed ''SyntaxError''))\<rparr>"

section \<open>Properties of the progress engine\<close>

lemma updateAllProgress_weeks:
  "weeks (updateAllProgress s) = map (\<lambda>w. w\<lparr>progress := calculateWeekProgress (courses w)\<rparr>) (weeks s)"
  by (simp add: updateAllProgress_def Let_def)

lemma calculateOverallProgress_courses:
  assumes h: "map courses ws = map courses vs"
  shows "calculateOverallProgress ws = calculateOverallProgress vs"
proof -
  have t: "fold (\<lambda>week total. total + length (courses week)) xs n =
           fold (\<lambda>cs total. total + length cs) (map courses xs) n"
    for xs :: "Week list" and n
    by (simp add: fold_map o_def)
  have c: "fold (\<lambda>week total. total + length (filter completed (courses week))) xs n =
           fold (\<lambda>cs total. total + length (filter completed cs)) (map courses xs) n"
    for xs :: "Week list" and n
    by (simp add: fold_map o_def)
  show ?thesis
    unfolding calculateOverallProgress_def t c h by (rule refl)
qed

lemma updateAllProgress_fresh:
  "progress w = calculateWeekProgress (courses w)" if "w \<in> set (weeks (updateAllProgress s))"
  using that by (auto simp: updateAllProgress_weeks)

lemma updateAllProgress_overall:
  "overallProgress (updateAllProgress s) = calculateOverallProgress (weeks (updateAllProgress s))"
  by (simp add: updateAllProgress_def Let_def)

lemma updateAllProgress_twice:
  "updateAllProgress (updateAllProgress s) = updateAllProgress s"
proof -
  let ?f = "\<lambda>w::Week. w\<lparr>progress := calculateWeekProgress (courses w)\<rparr>"
  have m: "map ?f (map ?f (weeks s)) = map ?f (weeks s)"
    by (simp add: o_def)
  show ?thesis
    by (simp add: updateAllProgress_def Let_def m del: map_map)
qed

text \<open>
  C2: recomputation is idempotent: recomputing the progress of a recomputed state returns
  the same state.
\<close>

theorem updateAllProgress_idempotent:
  "updateAllProgress (updateAllProgress s) = updateAllProgress s"
  by (rule updateAllProgress_twice)

subsection \<open>The reducer recomputes progress\<close>

text \<open>
  C1: after a transition that is not a no-op, the progress of a week is the value
  \<open>Math.round((completed / total) * 100)\<close> computed in binary64 arithmetic. For a week of 40
  courses with 23 completed, the quotient \<open>23 / 40\<close> rounds to the binary64 value
  \<open>5179139571476070 / 2 ^ 53\<close>, below \<open>0.575\<close>, and its product with 100 to
  \<open>8092405580431359 / 2 ^ 47\<close>, which is \<open>57.49999999999999\<close>: the progress is 57. The
  exact percentage is 57.5, which rounds to 58. Loading such a state yields 57 for the week
  and for the whole curriculum.
\<close>

theorem week_of_40_with_23_completed_rounds_down:
  "map progress
     (weeks (curriculumReducer staleState
               (mkAction ''LOAD_DATA'' None None None (Some week40State)))) = [57]
   \<and> overallProgress
         (curriculumReducer staleState
            (mkAction ''LOAD_DATA'' None None None (Some week40State))) = 57
   \<and> divD 23 40 = 5179139571476070 / 2 ^ 53
   \<and> mulD (divD 23 40) 100 = 8092405580431359 / 2 ^ 47
   \<and> Math_round (of_int (100 * 23) / of_int 40) = 58"
  by code_simp

subsection \<open>Toggling a course of a week that does not exist\<close>

text \<open>
  C5, as stated, fails on a state whose stored progress is stale, such as the state that
  \<open>loadCurriculumState\<close> returns (completion flags restored, progress not yet recomputed):
  no week has the id 999, the courses are left as they are, and the progress is recomputed all
  the same, so that the week whose only course is completed comes back with progress 100
  instead of 0.
\<close>

theorem toggle_unknown_week_changes_stale_state:
  "curriculumReducer staleState (mkAction ''TOGGLE_COMPLETION'' (Some 999) (Some ''1-1'') None None) \<noteq> staleState"
  by code_simp

lemma mapCourse_no_week:
  assumes "\<forall>w \<in> set (weeks s). week_id w \<noteq> wid"
  shows "mapCourse wid cid f s = s"
proof -
  have "map (\<lambda>week. if week_id week = wid
                    then week\<lparr>courses := map (\<lambda>course. if course_id course = cid then f course else course) (courses week)\<rparr>
                    else week) (weeks s) = weeks s"
    using assms by (intro map_idI) simp
  then show ?thesis by (simp add: mapCourse_def)
qed

text \<open>
  C5, amended: on a state whose progress fields are up to date (recomputing them changes
  nothing), \<open>TOGGLE_COMPLETION\<close> with a course id and a week id that matches no week
  returns the state itself.
\<close>

theorem toggle_unknown_week_returns_recomputed_state:
  assumes "action_type a = ''TOGGLE_COMPLETION''"
    and "weekId (payload a) = Some wid" and "courseId (payload a) = Some cid"
    and "wid \<notin> set (map week_id (weeks s))"
    and "updateAllProgress s = s"
  shows "curriculumReducer s a = s"
proof -
  have "\<forall>w \<in> set (weeks s). week_id w \<noteq> wid"
    using assms(4) by auto
  then show ?thesis
    using assms by (simp add: curriculumReducer_def mapCourse_no_week Let_def)
qed

theorem toggle_unknown_week_witness:
  "action_type (mkAction ''TOGGLE_COMPLETION'' (Some 999) (Some ''0-1'') None None) = ''TOGGLE_COMPLETION''
   \<and> 999 \<notin> set (map week_id (weeks weekZeroState))
   \<and> updateAllProgress weekZeroState = weekZeroState
   \<and> curriculumReducer weekZeroState (mkAction ''TOGGLE_COMPLETION'' (Some 999) (Some ''0-1'') None None)
       = weekZeroState"
proof -
  have u: "updateAllProgress weekZeroState = weekZeroState"
    by code_simp
  have n: "999 \<notin> set (map week_id (weeks weekZeroState))"
    by (simp add: weekZeroState_def)
  show ?thesis
    using toggle_unknown_week_returns_recomputed_state
            [of "mkAction ''TOGGLE_COMPLETION'' (Some 999) (Some ''0-1'') None None" 999 "''0-1''"
                weekZeroState, OF _ _ _ n u] u n
    by (simp add: mkAction_def)
qed

subsection \<open>Dates are stored unvalidated\<close>

lemma mapCourse_nth:
  assumes "i < length (weeks s)" and "j < length (courses (weeks s ! i))"
    and "week_id (weeks s ! i) = wid" and "course_id (courses (weeks s ! i) ! j) = cid"
  shows "courses (weeks (mapCourse wid cid f s) ! i) ! j = f (courses (weeks s ! i) ! j)"
  using assms by (simp add: mapCourse_def)

lemma updateAllProgress_nth_courses:
  "i < length (weeks s) \<Longrightarrow> courses (weeks (updateAllProgress s) ! i) = courses (weeks s ! i)"
  by (simp add: updateAllProgress_weeks)

lemma mapCourse_length: "length (weeks (mapCourse wid cid f s)) = length (weeks s)"
  by (simp add: mapCourse_def)

text \<open>
  C6, as stated, fails for a week whose id is 0: the guard of the reducer takes the week id 0
  for a missing field and returns the state unchanged, so the start date is not stored.
\<close>

theorem set_start_date_week_zero_rejected:
  "curriculumReducer weekZeroState (mkAction ''SET_START_DATE'' (Some 0) (Some ''0-1'') (Some (DateOf 20)) None)
     = weekZeroState
   \<and> map (\<lambda>w. map startDate (courses w))
         (weeks (curriculumReducer weekZeroState
                   (mkAction ''SET_START_DATE'' (Some 0) (Some ''0-1'') (Some (DateOf 20)) None)))
       = [[None]]
   \<and> map (\<lambda>w. map endDate (courses w)) (weeks weekZeroState) = [[Some (DateOf 10)]]
   \<and> dateGt (DateOf 20) (DateOf 10)"
  by code_simp

text \<open>
  C6, amended: for a week with a non-zero id and a course with a non-empty id whose end date
  is set, \<open>SET_START_DATE\<close> with a date strictly after the end date is accepted: the course,
  at its position in the returned state, is the course with that start date (its end date
  and the other fields unchanged), and the progress of the returned state is recomputed.
\<close>

theorem set_start_date_after_end_is_stored:
  assumes "i < length (weeks s)" and "j < length (courses (weeks s ! i))"
    and "w = weeks s ! i" and "c = courses w ! j"
    and "week_id w \<noteq> 0" and "course_id c \<noteq> []"
    and "endDate c = Some e" and "dateGt d e"
    and "action_type a = ''SET_START_DATE''"
    and "weekId (payload a) = Some (week_id w)" and "courseId (payload a) = Some (course_id c)"
    and "date (payload a) = Some d"
  shows "courses (weeks (curriculumReducer s a) ! i) ! j = c\<lparr>startDate := Some d\<rparr>
         \<and> updateAllProgress (curriculumReducer s a) = curriculumReducer s a"
proof -
  let ?m = "mapCourse (week_id w) (course_id c) (\<lambda>course. course\<lparr>startDate := Some d\<rparr>) s"
  have r: "curriculumReducer s a = updateAllProgress ?m"
    using assms by (simp add: curriculumReducer_def Let_def)
  have "courses (weeks (updateAllProgress ?m) ! i) ! j = c\<lparr>startDate := Some d\<rparr>"
    using assms(1-4) by (simp add: updateAllProgress_nth_courses mapCourse_length mapCourse_nth)
  then show ?thesis
    by (simp add: r updateAllProgress_twice)
qed


theorem set_start_date_after_end_witness:
  "courses (weeks (curriculumReducer weekOneState
              (mkAction ''SET_START_DATE'' (Some 1) (Some ''1-1'') (Some (DateOf 20)) None)) ! 0) ! 0
     = \<lparr>course_id = ''1-1'', name = ''c'', startDate = Some (DateOf 20),
        endDate = Some (DateOf 10), completed = False\<rparr>
   \<and> dateGt (DateOf 20) (DateOf 10)"
  using set_start_date_after_end_is_stored
          [of 0 weekOneState 0 "weeks weekOneState ! 0" "courses (weeks weekOneState ! 0) ! 0"
              "DateOf 10" "DateOf 20"
              "mkAction ''SET_START_DATE'' (Some 1) (Some ''1-1'') (Some (DateOf 20)) None"]
  by (simp add: weekOneState_def mkAction_def dateGt_def)

subsection \<open>Falsy identifiers\<close>

lemma curriculumReducer_falsy_id:
  assumes "action_type a \<in> {''SET_START_DATE'', ''SET_END_DATE'', ''TOGGLE_COMPLETION''}"
    and "weekId (payload a) = Some 0 \<or> courseId (payload a) = Some []"
  shows "curriculumReducer s a = s"
  using assms by (auto simp: curriculumReducer_def Let_def)

text \<open>
  C10: a week id of 0 or an empty course id is taken for a missing field. On every state, so
  also on one that has a week with the id 0, \<open>SET_START_DATE\<close>, \<open>SET_END_DATE\<close> and
  \<open>TOGGLE_COMPLETION\<close> with such an id return the state unchanged, and so does any sequence
  of such actions: these three actions never modify a week whose id is 0.
\<close>

theorem falsy_ids_are_rejected:
  assumes "\<forall>a \<in> set acts.
             action_type a \<in> {''SET_START_DATE'', ''SET_END_DATE'', ''TOGGLE_COMPLETION''}
             \<and> (weekId (payload a) = Some 0 \<or> courseId (payload a) = Some [])"
  shows "foldl curriculumReducer s acts = s"
  using assms
proof (induction acts)
  case Nil
  show ?case by simp
next
  case (Cons a acts)
  have "curriculumReducer s a = s"
    using Cons.prems by (intro curriculumReducer_falsy_id) simp_all
  with Cons show ?case by simp
qed

theorem falsy_ids_witness:
  "map week_id (weeks weekZeroState) = [0]
   \<and> curriculumReducer weekZeroState (mkAction ''TOGGLE_COMPLETION'' (Some 0) (Some ''0-1'') None None)
       = weekZeroState
   \<and> foldl curriculumReducer weekZeroState
         [mkAction ''SET_START_DATE'' (Some 0) (Some ''0-1'') (Some (DateOf 5)) None,
          mkAction ''SET_END_DATE'' (Some 0) (Some ''0-1'') (Some (DateOf 30)) None,
          mkAction ''TOGGLE_COMPLETION'' (Some 0) (Some ''0-1'') None None]
       = weekZeroState"
  using falsy_ids_are_rejected
          [of "[mkAction ''TOGGLE_COMPLETION'' (Some 0) (Some ''0-1'') None None]" weekZeroState]
        falsy_ids_are_rejected
          [of "[mkAction ''SET_START_DATE'' (Some 0) (Some ''0-1'') (Some (DateOf 5)) None,
                mkAction ''SET_END_DATE'' (Some 0) (Some ''0-1'') (Some (DateOf 30)) None,
                mkAction ''TOGGLE_COMPLETION'' (Some 0) (Some ''0-1'') None None]" weekZeroState]
  by (simp add: mkAction_def weekZeroState_def)

section \<open>Properties of the date validator\<close>

text \<open>
  C7: the checks of \<open>validateDate\<close> run in a fixed order and the first failure wins. A date
  that is present but unparseable is reported as \<open>INVALID_FORMAT\<close>, whatever the options
  are, so also when the field is required; a missing date is reported as
  \<open>REQUIRED_FIELD\<close> when the field is required, and is valid when it is not.
\<close>

theorem validateDate_presence_before_format:
  "errorType (validateDate env (Some InvalidDate) options) = Some INVALID_FORMAT
   \<and> \<not> isValid (validateDate env (Some InvalidDate) options)
   \<and> (required options = Some True \<longrightarrow>
        errorType (validateDate env None options) = Some REQUIRED_FIELD
        \<and> \<not> isValid (validateDate env None options))
   \<and> (required options \<noteq> Some True \<longrightarrow>
        validateDate env None options = validResult \<and> isValid validResult)"
  by (cases "required options")
     (auto simp: validateDate_def invalidResult_def validResult_def Let_def)

theorem validateDate_presence_before_format_witness:
  "errorType (validateDate exampleEnv (Some InvalidDate) (noOptions\<lparr>required := Some True\<rparr>))
     = Some INVALID_FORMAT
   \<and> errorType (validateDate exampleEnv None (noOptions\<lparr>required := Some True\<rparr>))
     = Some REQUIRED_FIELD
   \<and> validateDate exampleEnv None (noOptions\<lparr>required := Some False\<rparr>) = validResult
   \<and> validateDate exampleEnv None noOptions = validResult"
  using validateDate_presence_before_format [of exampleEnv "noOptions\<lparr>required := Some True\<rparr>"]
        validateDate_presence_before_format [of exampleEnv "noOptions\<lparr>required := Some False\<rparr>"]
        validateDate_presence_before_format [of exampleEnv noOptions]
  by (simp add: noOptions_def)

text \<open>
  C8: \<open>validateDateRange\<close> accepts a pair with an absent side; with both sides present it
  fails with \<open>INVALID_FORMAT\<close> when one of them is an invalid date; for two valid dates
  it fails with \<open>START_AFTER_END\<close> exactly when the start is strictly after the end, and
  equal dates are valid.
\<close>

theorem validateDateRange_cases:
  "((start_arg = None \<or> end_arg = None) \<longrightarrow>
      validateDateRange env start_arg end_arg options = validResult \<and> isValid validResult)
   \<and> ((isNaN_getTime s \<or> isNaN_getTime e) \<longrightarrow>
        errorType (validateDateRange env (Some s) (Some e) options) = Some INVALID_FORMAT
        \<and> \<not> isValid (validateDateRange env (Some s) (Some e) options))
   \<and> (errorType (validateDateRange env (Some (DateOf x)) (Some (DateOf y)) options)
          = Some START_AFTER_END \<longleftrightarrow> y < x)
   \<and> (isValid (validateDateRange env (Some (DateOf x)) (Some (DateOf y)) options) \<longleftrightarrow> x \<le> y)
   \<and> (x \<le> y \<longrightarrow>
        validateDateRange env (Some (DateOf x)) (Some (DateOf y)) options = validResult)"
  by (auto simp: validateDateRange_def invalidResult_def validResult_def Let_def dateGt_def
           split: option.splits)

theorem validateDateRange_cases_witness:
  "validateDateRange exampleEnv None (Some (DateOf 5)) noOptions = validResult
   \<and> errorType (validateDateRange exampleEnv (Some InvalidDate) (Some (DateOf 5)) noOptions)
       = Some INVALID_FORMAT
   \<and> errorType (validateDateRange exampleEnv (Some (DateOf 1705708800000))
                  (Some (DateOf 1705276800000)) noOptions) = Some START_AFTER_END
   \<and> validateDateRange exampleEnv (Some (DateOf 1705276800000)) (Some (DateOf 1705276800000))
        noOptions = validResult"
  using validateDateRange_cases [of None "Some (DateOf 5)" exampleEnv noOptions InvalidDate
                                    "DateOf 5" 1705708800000 1705276800000]
        validateDateRange_cases [of None None exampleEnv noOptions InvalidDate
                                    "DateOf 5" 1705276800000 1705276800000]
  by simp

section \<open>Properties of the persistence adapter\<close>

lemma isLocalStorageAvailable_returns:
  "\<exists>b st1. isLocalStorageAvailable host st = (Inr b, st1)"
  by (auto simp: isLocalStorageAvailable_def tryCatch_def bindJ_def returnJ_def
           split: prod.splits sum.splits)

text \<open>
  C9: \<open>saveCurriculumState\<close> never throws and returns a boolean. On an unavailable store it
  returns \<open>false\<close>. Otherwise it returns \<open>true\<close> when the record is built and written; when
  that fails with an exception other than a \<open>QuotaExceededError\<close> it returns \<open>false\<close> and
  touches the store no further; when it fails with a \<open>QuotaExceededError\<close> it removes the
  record and builds and writes it once more, returning \<open>true\<close> if that write succeeds and
  \<open>false\<close> if the removal or the second write throws.
\<close>

theorem saveCurriculumState_outcomes:
  fixes host :: "'s Host"
  shows "(\<exists>b st1. saveCurriculumState host lib state st = (Inr b, st1))
   \<and> (isLocalStorageAvailable host st = (Inr False, st1) \<longrightarrow>
        saveCurriculumState host lib state st = (Inr False, st1))
   \<and> (isLocalStorageAvailable host st = (Inr True, st1) \<longrightarrow>
        (writeStoredData host lib state st1 = (Inr (), st2) \<longrightarrow>
           saveCurriculumState host lib state st = (Inr True, st2))
        \<and> (writeStoredData host lib state st1 = (Inl e, st2)
             \<and> e \<noteq> ErrorNamed ''QuotaExceededError'' \<longrightarrow>
           saveCurriculumState host lib state st = (Inr False, st2))
        \<and> (writeStoredData host lib state st1 = (Inl (ErrorNamed ''QuotaExceededError''), st2) \<longrightarrow>
             (removeItem host STORAGE_KEY st2 = (Inl e2, st3) \<longrightarrow>
                saveCurriculumState host lib state st = (Inr False, st3))
             \<and> (removeItem host STORAGE_KEY st2 = (Inr (), st3) \<longrightarrow>
                  (writeStoredData host lib state st3 = (Inr (), st4) \<longrightarrow>
                     saveCurriculumState host lib state st = (Inr True, st4))
                  \<and> (writeStoredData host lib state st3 = (Inl e3, st4) \<longrightarrow>
                       saveCurriculumState host lib state st = (Inr False, st4)))))"
proof -
  obtain b sa where a: "isLocalStorageAvailable host st = (Inr b, sa)"
    using isLocalStorageAvailable_returns [of host st] by blast
  show ?thesis
    by (auto simp: a saveCurriculumState_def tryCatch_def bindJ_def returnJ_def
             split: prod.splits sum.splits)
qed


theorem saveCurriculumState_retry_witness:
  "fst (saveCurriculumState testHost exampleLib weekOneState quotaOnFirstWrite) = Inr True
   \<and> items (snd (saveCurriculumState testHost exampleLib weekOneState quotaOnFirstWrite))
         STORAGE_KEY = Some ''{}''
   \<and> saveCurriculumState testHost exampleLib weekOneState
         (quotaOnFirstWrite\<lparr>failures := [Some NotAnError]\<rparr>)
       = (Inr False, quotaOnFirstWrite\<lparr>failures := []\<rparr>)"
proof -
  let ?st = quotaOnFirstWrite
  let ?st1 = "snd (isLocalStorageAvailable testHost ?st)"
  let ?st2 = "snd (writeStoredData testHost exampleLib weekOneState ?st1)"
  let ?st3 = "snd (removeItem testHost STORAGE_KEY ?st2)"
  let ?st4 = "snd (writeStoredData testHost exampleLib weekOneState ?st3)"
  note ev = isLocalStorageAvailable_def writeStoredData_def curriculumStateToStoredData_def
    tryCatch_def bindJ_def returnJ_def liftE_def testHost_def testSetItem_def
    quotaOnFirstWrite_def exampleLib_def weekOneState_def putWeek_def putCourse_def
    storedCourseOf_def toStringInt_def showNat.simps digitChar_def STORAGE_KEY_def
  have a: "isLocalStorageAvailable testHost ?st = (Inr True, ?st1)"
    by (simp add: ev)
  have w1: "writeStoredData testHost exampleLib weekOneState ?st1
              = (Inl (ErrorNamed ''QuotaExceededError''), ?st2)"
    by (simp add: ev)
  have r: "removeItem testHost STORAGE_KEY ?st2 = (Inr (), ?st3)"
    by (simp add: ev)
  have w2: "writeStoredData testHost exampleLib weekOneState ?st3 = (Inr (), ?st4)"
    by (simp add: ev)
  have s4: "items ?st4 STORAGE_KEY = Some ''{}''"
    by (simp add: ev)
  let ?u = "quotaOnFirstWrite\<lparr>failures := [Some NotAnError]\<rparr>"
  have b: "isLocalStorageAvailable testHost ?u = (Inr False, quotaOnFirstWrite\<lparr>failures := []\<rparr>)"
    by (simp add: ev)
  show ?thesis
    using saveCurriculumState_outcomes
            [where host = testHost and lib = exampleLib and state = weekOneState and st = ?st
               and ?st1.0 = ?st1 and ?st2.0 = ?st2 and ?st3.0 = ?st3 and ?st4.0 = ?st4]
          saveCurriculumState_outcomes
            [where host = testHost and lib = exampleLib and state = weekOneState and st = ?u
               and ?st1.0 = "quotaOnFirstWrite\<lparr>failures := []\<rparr>"]
          a w1 r w2 s4 b
    by simp
qed

subsection \<open>Loading\<close>






lemma testHost_available:
  assumes "failures st = []"
  shows "isLocalStorageAvailable testHost st
           = (Inr True, st\<lparr>items := (items st)(''__localStorage_test__'' := None)\<rparr>)"
  using assms
  by (simp add: isLocalStorageAvailable_def tryCatch_def bindJ_def returnJ_def testHost_def
        testSetItem_def)

subsection \<open>The structural rules and the type guard\<close>




subsection \<open>When the load returns null\<close>


lemma storage_key_not_probe: "STORAGE_KEY \<noteq> ''__localStorage_test__''"
  by (simp add: STORAGE_KEY_def)


lemma loadCurriculumState_present:
  assumes "failures st = []" and "items st STORAGE_KEY = Some serialized" and "serialized \<noteq> []"
    and "probed = st\<lparr>items := (items st)(''__localStorage_test__'' := None)\<rparr>"
    and "cleared = st\<lparr>items := (items st)(''__localStorage_test__'' := None, STORAGE_KEY := None)\<rparr>"
  shows "loadCurriculumState testHost lib seed st =
      (case JSON_parse lib serialized of
         Inl e \<Rightarrow> (Inr None, cleared)
       | Inr j \<Rightarrow>
           if \<not> validateStoredData j then (Inr None, cleared)
           else if getProp j ''version'' \<noteq> Some (JString STORAGE_VERSION) then (Inr None, cleared)
           else (case storedDataToCurriculumState lib j seed of
                   Inl e \<Rightarrow> (Inr None, cleared)
                 | Inr cs \<Rightarrow> (Inr (Some cs), probed)))"
  unfolding loadCurriculumState_def bindJ_def testHost_available [OF assms(1)]
  using assms(2,3) storage_key_not_probe
  by (simp add: assms(4,5) tryCatch_def bindJ_def returnJ_def liftE_def testHost_def
        split: sum.splits)





subsection \<open>Week ids as dictionary keys\<close>

lemma digitChar_inj:
  assumes "a < 10" and "b < 10" and "digitChar a = digitChar b"
  shows "a = b"
proof -
  have "distinct ''0123456789''" by simp
  moreover have "a < length ''0123456789''" "b < length ''0123456789''"
    using assms by simp_all
  ultimately show ?thesis
    using assms(3) unfolding digitChar_def by (simp only: nth_eq_iff_index_eq)
qed

lemma digitChar_is_digit: "d < 10 \<Longrightarrow> digitChar d \<in> set ''0123456789''"
  unfolding digitChar_def by (rule nth_mem) simp

lemma showNat_nonempty: "showNat n \<noteq> []"
  by (subst showNat.simps) simp

lemma showNat_last: "last (showNat n) = digitChar (n mod 10)"
  by (subst showNat.simps) simp

lemma showNat_butlast: "butlast (showNat n) = (if n < 10 then [] else showNat (n div 10))"
  by (subst showNat.simps) simp

lemma showNat_digits: "set (showNat n) \<subseteq> set ''0123456789''"
proof (induction n rule: showNat.induct)
  case (1 n)
  have d: "digitChar (n mod 10) \<in> set ''0123456789''"
    by (rule digitChar_is_digit) simp
  show ?case
  proof (cases "n < 10")
    case True
    then show ?thesis
      using digitChar_is_digit [of n] by (subst showNat.simps) simp
  next
    case False
    then show ?thesis
      using 1 d by (subst showNat.simps) simp
  qed
qed

lemma showNat_inj: "showNat n = showNat m \<Longrightarrow> n = m"
proof (induction n arbitrary: m rule: showNat.induct)
  case (1 n)
  have "digitChar (n mod 10) = digitChar (m mod 10)"
    using "1.prems" showNat_last by metis
  then have r: "n mod 10 = m mod 10"
    by (intro digitChar_inj) simp_all
  have b: "(if n < 10 then [] else showNat (n div 10)) = (if m < 10 then [] else showNat (m div 10))"
    using "1.prems" showNat_butlast by metis
  show ?case
  proof (cases "n < 10")
    case True
    with b have "m < 10"
      using showNat_nonempty [of "m div 10"] by (auto split: if_splits)
    with True r show ?thesis by simp
  next
    case False
    with b have m: "\<not> m < 10" and e: "showNat (n div 10) = showNat (m div 10)"
      using showNat_nonempty [of "n div 10"] by (auto split: if_splits)
    have "n div 10 = m div 10"
      using "1.IH" [OF False e] .
    with r show ?thesis
      by (metis div_mult_mod_eq)
  qed
qed

lemma toStringInt_inj: "toStringInt a = toStringInt b \<Longrightarrow> a = b"
proof -
  assume h: "toStringInt a = toStringInt b"
  have nm: "hd (showNat n) \<noteq> CHR ''-''" for n
  proof -
    have "hd (showNat n) \<in> set (showNat n)"
      using showNat_nonempty by simp
    then have "hd (showNat n) \<in> set ''0123456789''"
      using showNat_digits by blast
    then show ?thesis by auto
  qed
  show ?thesis
  proof (cases "a < 0"; cases "b < 0")
    assume "a < 0" "b < 0"
    with h have "showNat (nat (- a)) = showNat (nat (- b))"
      by (simp add: toStringInt_def)
    then have "nat (- a) = nat (- b)" by (rule showNat_inj)
    with \<open>a < 0\<close> \<open>b < 0\<close> show ?thesis by simp
  next
    assume "a < 0" "\<not> b < 0"
    with h have "CHR ''-'' # showNat (nat (- a)) = showNat (nat b)"
      by (simp add: toStringInt_def)
    then have "hd (showNat (nat b)) = CHR ''-''" by (metis list.sel(1))
    with nm show ?thesis by blast
  next
    assume "\<not> a < 0" "b < 0"
    with h have "showNat (nat a) = CHR ''-'' # showNat (nat (- b))"
      by (simp add: toStringInt_def)
    then have "hd (showNat (nat a)) = CHR ''-''" by (metis list.sel(1))
    with nm show ?thesis by blast
  next
    assume "\<not> a < 0" "\<not> b < 0"
    with h have "showNat (nat a) = showNat (nat b)"
      by (simp add: toStringInt_def)
    then have "nat a = nat b" by (rule showNat_inj)
    with \<open>\<not> a < 0\<close> \<open>\<not> b < 0\<close> show ?thesis by simp
  qed
qed


subsection \<open>What the save writes\<close>

lemma storedCourseOf_valid:
  assumes "startDate c \<noteq> Some InvalidDate" and "endDate c \<noteq> Some InvalidDate"
  shows "\<exists>sc. storedCourseOf lib c = Inr sc"
proof -
  have "\<exists>x. optionalISOString lib d = Inr x" if "d \<noteq> Some InvalidDate" for d
  proof (cases d)
    case None
    then show ?thesis by simp
  next
    case (Some v)
    with that show ?thesis by (cases v) simp_all
  qed
  then obtain x y where "optionalISOString lib (startDate c) = Inr x"
    "optionalISOString lib (endDate c) = Inr y"
    using assms by blast
  then show ?thesis
    by (simp add: storedCourseOf_def)
qed

lemma foldE_putCourse_other:
  assumes "foldE (putCourse lib k) cs cur = Inr cur1" and "k1 \<noteq> k"
  shows "map_of cur1 k1 = map_of cur k1"
  using assms
proof (induction cs arbitrary: cur)
  case Nil
  then show ?case by simp
next
  case (Cons c cs)
  from Cons.prems(1) obtain mid where m: "putCourse lib k c cur = Inr mid"
    and r: "foldE (putCourse lib k) cs mid = Inr cur1"
    by (auto split: sum.splits)
  from m have "map_of mid k1 = map_of cur k1"
    using Cons.prems(2)
    by (auto simp: putCourse_def update_conv' split: option.splits sum.splits if_splits)
  with Cons.IH [OF r Cons.prems(2)] show ?case by simp
qed

lemma foldE_putCourse:
  assumes "\<forall>c \<in> set cs. \<exists>sc. storedCourseOf lib c = Inr sc"
    and "''__proto__'' \<notin> set (map course_id cs)"
    and "map_of cur k = Some wo"
  shows "\<exists>cur1 wo1. foldE (putCourse lib k) cs cur = Inr cur1
           \<and> map_of cur1 k = Some wo1
           \<and> map_of wo1 = map_of wo ++
                 map_of (rev (map (\<lambda>c. (course_id c, projr (storedCourseOf lib c))) cs))"
  using assms
proof (induction cs arbitrary: cur wo)
  case Nil
  then show ?case by simp
next
  case (Cons c cs)
  obtain sc where sc: "storedCourseOf lib c = Inr sc"
    using Cons.prems(1) by auto
  have np: "course_id c \<noteq> ''__proto__''"
    using Cons.prems(2) by auto
  let ?wo = "AList.update (course_id c) sc wo"
  let ?mid = "AList.update k ?wo cur"
  have m: "putCourse lib k c cur = Inr ?mid"
    by (simp add: putCourse_def Cons.prems(3) sc np)
  have k: "map_of ?mid k = Some ?wo"
    by (simp add: update_conv')
  obtain cur1 wo1 where f: "foldE (putCourse lib k) cs ?mid = Inr cur1"
    and w: "map_of cur1 k = Some wo1"
    and e: "map_of wo1 = map_of ?wo ++
              map_of (rev (map (\<lambda>c. (course_id c, projr (storedCourseOf lib c))) cs))"
  proof -
    have v: "\<forall>c \<in> set cs. \<exists>sc. storedCourseOf lib c = Inr sc"
      using Cons.prems(1) by simp
    have n: "''__proto__'' \<notin> set (map course_id cs)"
      using Cons.prems(2) by simp
    from Cons.IH [OF v n k] that show thesis by blast
  qed
  have "map_of wo1 = map_of wo ++
          map_of (rev (map (\<lambda>c. (course_id c, projr (storedCourseOf lib c))) (c # cs)))"
    by (rule ext) (simp add: e update_conv' sc map_add_def split: option.splits)
  with f w m show ?case by simp
qed

lemma putWeek_other:
  assumes "putWeek lib w cur = Inr cur1" and "k1 \<noteq> toStringInt (week_id w)"
  shows "map_of cur1 k1 = map_of cur k1"
proof -
  have "map_of cur1 k1 = map_of (AList.update (toStringInt (week_id w)) [] cur) k1"
    using assms by (intro foldE_putCourse_other) (simp_all add: putWeek_def Let_def)
  then show ?thesis
    using assms(2) by (simp add: update_conv')
qed

lemma foldE_putWeek_other:
  assumes "foldE (putWeek lib) ws cur = Inr cur1"
    and "k1 \<notin> set (map (\<lambda>w. toStringInt (week_id w)) ws)"
  shows "map_of cur1 k1 = map_of cur k1"
  using assms
proof (induction ws arbitrary: cur)
  case Nil
  then show ?case by simp
next
  case (Cons w ws)
  from Cons.prems(1) obtain mid where m: "putWeek lib w cur = Inr mid"
    and r: "foldE (putWeek lib) ws mid = Inr cur1"
    by (auto split: sum.splits)
  have "map_of mid k1 = map_of cur k1"
    using putWeek_other [OF m] Cons.prems(2) by simp
  moreover have "map_of cur1 k1 = map_of mid k1"
    using Cons.IH [OF r] Cons.prems(2) by simp
  ultimately show ?case by simp
qed

lemma putWeek_valid:
  assumes "\<forall>c \<in> set (courses w). \<exists>sc. storedCourseOf lib c = Inr sc"
    and "''__proto__'' \<notin> set (map course_id (courses w))"
  shows "\<exists>cur1 wo. putWeek lib w cur = Inr cur1
           \<and> map_of cur1 (toStringInt (week_id w)) = Some wo
           \<and> map_of wo =
                 map_of (rev (map (\<lambda>c. (course_id c, projr (storedCourseOf lib c))) (courses w)))"
proof -
  let ?k = "toStringInt (week_id w)"
  have "map_of (AList.update ?k [] cur) ?k = Some []"
    by (simp add: update_conv')
  from foldE_putCourse [OF assms this] show ?thesis
    by (auto simp: putWeek_def Let_def)
qed

lemma foldE_putWeek:
  assumes "\<forall>w \<in> set ws. \<forall>c \<in> set (courses w). \<exists>sc. storedCourseOf lib c = Inr sc"
    and "\<forall>w \<in> set ws. ''__proto__'' \<notin> set (map course_id (courses w))"
    and "distinct (map week_id ws)"
  shows "\<exists>cur1. foldE (putWeek lib) ws cur = Inr cur1
           \<and> (\<forall>w \<in> set ws. \<exists>wo. map_of cur1 (toStringInt (week_id w)) = Some wo
                 \<and> map_of wo =
                     map_of (rev (map (\<lambda>c. (course_id c, projr (storedCourseOf lib c)))
                                      (courses w))))"
  using assms
proof (induction ws arbitrary: cur)
  case Nil
  then show ?case by simp
next
  case (Cons w ws)
  obtain mid wo where m: "putWeek lib w cur = Inr mid"
    and k: "map_of mid (toStringInt (week_id w)) = Some wo"
    and e: "map_of wo =
              map_of (rev (map (\<lambda>c. (course_id c, projr (storedCourseOf lib c))) (courses w)))"
  proof -
    have 1: "\<forall>c \<in> set (courses w). \<exists>sc. storedCourseOf lib c = Inr sc"
      using Cons.prems(1) by simp
    have 2: "''__proto__'' \<notin> set (map course_id (courses w))"
      using Cons.prems(2) by simp
    from putWeek_valid [OF 1 2, of cur] that show thesis by blast
  qed
  have v: "\<forall>w1 \<in> set ws. \<forall>c \<in> set (courses w1). \<exists>sc. storedCourseOf lib c = Inr sc"
    using Cons.prems(1) by simp
  have n: "\<forall>w1 \<in> set ws. ''__proto__'' \<notin> set (map course_id (courses w1))"
    using Cons.prems(2) by simp
  have d: "distinct (map week_id ws)"
    using Cons.prems(3) by simp
  obtain cur1 where f: "foldE (putWeek lib) ws mid = Inr cur1"
    and r: "\<forall>w \<in> set ws. \<exists>wo. map_of cur1 (toStringInt (week_id w)) = Some wo
              \<and> map_of wo =
                  map_of (rev (map (\<lambda>c. (course_id c, projr (storedCourseOf lib c)))
                                   (courses w)))"
    using Cons.IH [OF v n d, of mid] by blast
  have "toStringInt (week_id w) \<notin> set (map (\<lambda>w. toStringInt (week_id w)) ws)"
    using Cons.prems(3) toStringInt_inj by auto
  then have "map_of cur1 (toStringInt (week_id w)) = Some wo"
    using foldE_putWeek_other [OF f] k by simp
  then have "\<exists>wo. map_of cur1 (toStringInt (week_id w)) = Some wo
           \<and> map_of wo =
               map_of (rev (map (\<lambda>c. (course_id c, projr (storedCourseOf lib c))) (courses w)))"
    using e by blast
  with r have "\<forall>w \<in> set (w # ws). \<exists>wo. map_of cur1 (toStringInt (week_id w)) = Some wo
              \<and> map_of wo =
                  map_of (rev (map (\<lambda>c. (course_id c, projr (storedCourseOf lib c)))
                                   (courses w)))"
    by simp
  moreover have "foldE (putWeek lib) (w # ws) cur = Inr cur1"
    by (simp add: m f)
  ultimately show ?case by blast
qed

lemma curriculumStateToStoredData_testHost:
  assumes "foldE (putWeek lib) (weeks s) [] = Inr cur"
  shows "curriculumStateToStoredData testHost lib s st =
           (Inr \<lparr>version = STORAGE_VERSION, lastUpdated = toISOString lib (clock st),
                 curriculum = cur\<rparr>, st)"
  by (simp add: curriculumStateToStoredData_def bindJ_def liftE_def returnJ_def testHost_def assms)

lemma saveCurriculumState_testHost:
  assumes "failures st = []" and "foldE (putWeek lib) (weeks s) [] = Inr cur"
    and "d = \<lparr>version = STORAGE_VERSION, lastUpdated = toISOString lib (clock st),
               curriculum = cur\<rparr>"
  shows "saveCurriculumState testHost lib s st =
           (Inr True, st\<lparr>items := (items st)(''__localStorage_test__'' := None,
                                              STORAGE_KEY \<mapsto> JSON_stringify lib d)\<rparr>)"
  unfolding saveCurriculumState_def bindJ_def testHost_available [OF assms(1)]
  by (simp add: tryCatch_def bindJ_def returnJ_def writeStoredData_def
        curriculumStateToStoredData_testHost [OF assms(2)] assms(1,3))
    (simp add: testHost_def testSetItem_def returnJ_def assms(1))

subsection \<open>What the load reads back\<close>

lemma map_of_key:
  assumes "k \<in> set (map fst xs)"
  shows "\<exists>v. map_of xs k = Some v"
  using assms by (metis map_of_eq_None_iff not_None_eq set_map)

lemma sameDict_lookup:
  assumes "sameDict R xs ys" and "map_of xs k = Some v"
  shows "\<exists>j. map_of ys k = Some j \<and> R v j"
proof -
  have "(k, v) \<in> set xs"
    using assms(2) by (rule map_of_SomeD)
  then have k: "k \<in> set (map fst xs)"
    by force
  have "list_all (\<lambda>k. case map_of xs k of
                         None \<Rightarrow> False
                       | Some v \<Rightarrow> (case map_of ys k of None \<Rightarrow> False | Some j \<Rightarrow> R v j))
          (map fst xs)"
    using assms(1) unfolding sameDict_def by blast
  then have "case map_of xs k of
               None \<Rightarrow> False
             | Some v \<Rightarrow> (case map_of ys k of None \<Rightarrow> False | Some j \<Rightarrow> R v j)"
    using k unfolding list_all_iff by blast
  then show ?thesis
    by (simp add: assms(2) split: option.splits)
qed

lemma sameDict_key:
  assumes "sameDict R xs ys" and "k \<in> set (map fst ys)"
  shows "\<exists>v j. map_of xs k = Some v \<and> map_of ys k = Some j \<and> R v j"
proof -
  have "k \<in> set (map fst xs)"
    using assms by (simp add: sameDict_def)
  then obtain v where "map_of xs k = Some v"
    using map_of_key by fastforce
  then show ?thesis
    using sameDict_lookup [OF assms(1)] by blast
qed

lemma representsCourse_object:
  assumes "representsCourse sc j"
  shows "\<exists>kvs. j = JObject kvs
           \<and> map_of kvs ''startDate'' = map_option JString (stored_startDate sc)
           \<and> map_of kvs ''endDate'' = map_option JString (stored_endDate sc)
           \<and> map_of kvs ''completed'' = Some (JBool (stored_completed sc))"
  using assms by (cases j) (simp_all add: representsCourse_def)

lemma representsCourse_valid:
  assumes "representsCourse sc j"
  shows "validCourseData (Some j)"
proof -
  obtain kvs where "j = JObject kvs"
    "map_of kvs ''startDate'' = map_option JString (stored_startDate sc)"
    "map_of kvs ''endDate'' = map_option JString (stored_endDate sc)"
    "map_of kvs ''completed'' = Some (JBool (stored_completed sc))"
    using representsCourse_object [OF assms] by blast
  then show ?thesis
    by (cases "stored_startDate sc"; cases "stored_endDate sc")
      (simp_all add: validCourseData_def getPropOpt_def getProp_def)
qed

lemma representsWeek_valid:
  assumes "representsWeek wo j"
  shows "validWeekData (Some j)"
proof -
  obtain cs where j: "j = JObject cs" and s: "sameDict representsCourse wo cs"
    using assms by (cases j) (simp_all add: representsWeek_def)
  have "validCourseData (getPropOpt (Some (JObject cs)) k)" if h: "k \<in> set (map fst cs)" for k
  proof -
    obtain sc c where "map_of cs k = Some c" "representsCourse sc c"
      using sameDict_key [OF s h] by blast
    then show ?thesis
      by (simp add: getPropOpt_def getProp_def representsCourse_valid)
  qed
  then show ?thesis
    by (simp add: validWeekData_def j ownKeys_def list_all_iff)
qed

lemma representsStoredData_object:
  assumes "representsStoredData d j"
  shows "\<exists>props ws. j = JObject props
           \<and> map_of props ''version'' = Some (JString (version d))
           \<and> map_of props ''lastUpdated'' = Some (JString (lastUpdated d))
           \<and> map_of props ''curriculum'' = Some (JObject ws)
           \<and> sameDict representsWeek (curriculum d) ws"
  using assms
  by (cases j) (auto simp: representsStoredData_def split: option.splits json.splits)

lemma representsStoredData_valid:
  assumes "representsStoredData d j" and "version d \<noteq> []" and "lastUpdated d \<noteq> []"
  shows "validateStoredData j"
proof -
  obtain props ws where j: "j = JObject props"
    and v: "map_of props ''version'' = Some (JString (version d))"
    and l: "map_of props ''lastUpdated'' = Some (JString (lastUpdated d))"
    and c: "map_of props ''curriculum'' = Some (JObject ws)"
    and s: "sameDict representsWeek (curriculum d) ws"
    using representsStoredData_object [OF assms(1)] by blast
  have "validWeekData (getPropOpt (Some (JObject ws)) k)" if h: "k \<in> set (map fst ws)" for k
  proof -
    obtain wo w where "map_of ws k = Some w" "representsWeek wo w"
      using sameDict_key [OF s h] by blast
    then show ?thesis
      by (simp add: getPropOpt_def getProp_def representsWeek_valid)
  qed
  then have "list_all (\<lambda>k. validWeekData (getPropOpt (Some (JObject ws)) k)) (ownKeys (JObject ws))"
    by (simp add: ownKeys_def list_all_iff)
  then show ?thesis
    using assms(2,3) by (simp add: validateStoredData_def j getProp_def v l c)
qed

lemma optionalISOString_cases:
  assumes "optionalISOString lib d = Inr x"
  shows "(d = None \<and> x = None) \<or> (\<exists>t. d = Some (DateOf t) \<and> x = Some (toISOString lib t))"
proof (cases d)
  case None
  with assms show ?thesis by simp
next
  case (Some v)
  with assms show ?thesis by (cases v) auto
qed

lemma overlayCourse_roundtrip:
  assumes "storedCourseOf lib c = Inr sc"
    and "map_of wo (course_id c1) = Some sc"
    and "\<forall>t. startDate c = Some (DateOf t) \<or> endDate c = Some (DateOf t) \<longrightarrow>
           toISOString lib t \<noteq> [] \<and> newDateFromString lib (toISOString lib t) = DateOf t"
    and "sameDict representsCourse wo cs"
  shows "\<exists>r. overlayCourse lib (Some (JObject cs)) c1 = WellTyped r
           \<and> completed r = completed c \<and> startDate r = startDate c \<and> endDate r = endDate c"
proof -
  obtain cj where m: "map_of cs (course_id c1) = Some cj" and rc: "representsCourse sc cj"
    using sameDict_lookup [OF assms(4,2)] by blast
  obtain kvs where cj: "cj = JObject kvs"
    and ps: "map_of kvs ''startDate'' = map_option JString (stored_startDate sc)"
    and pe: "map_of kvs ''endDate'' = map_option JString (stored_endDate sc)"
    and pc: "map_of kvs ''completed'' = Some (JBool (stored_completed sc))"
    using representsCourse_object [OF rc] by blast
  obtain x y where x: "optionalISOString lib (startDate c) = Inr x"
    and y: "optionalISOString lib (endDate c) = Inr y"
    and sc: "sc = \<lparr>stored_startDate = x, stored_endDate = y, stored_completed = completed c\<rparr>"
    using assms(1) by (auto simp: storedCourseOf_def split: sum.splits)
  let ?r = "c1\<lparr>startDate := (if truthyOpt (map_option JString x)
                              then Some (newDateOf lib (map_option JString x)) else None),
                endDate := (if truthyOpt (map_option JString y)
                            then Some (newDateOf lib (map_option JString y)) else None),
                completed := completed c\<rparr>"
  have g: "getPropOpt (Some (JObject cs)) (course_id c1) = Some (JObject kvs)"
    by (simp add: getPropOpt_def getProp_def m cj)
  have p: "getPropOpt (Some (JObject kvs)) ''startDate'' = map_option JString x"
    "getPropOpt (Some (JObject kvs)) ''endDate'' = map_option JString y"
    "getPropOpt (Some (JObject kvs)) ''completed'' = Some (JBool (completed c))"
    by (simp_all add: getPropOpt_def getProp_def ps pe pc sc)
  have r: "overlayCourse lib (Some (JObject cs)) c1 = WellTyped ?r"
    unfolding overlayCourse_def Let_def g p
    by simp
  have sd: "(if truthyOpt (map_option JString x)
             then Some (newDateOf lib (map_option JString x)) else None) = startDate c"
    using optionalISOString_cases [OF x] assms(3) by auto
  have ed: "(if truthyOpt (map_option JString y)
             then Some (newDateOf lib (map_option JString y)) else None) = endDate c"
    using optionalISOString_cases [OF y] assms(3) by auto
  have "completed ?r = completed c \<and> startDate ?r = startDate c \<and> endDate ?r = endDate c"
    by (simp add: sd ed)
  with r show ?thesis by blast
qed

lemma collectTyped_list_all2:
  assumes "list_all2 (\<lambda>x y. \<exists>z. f x = WellTyped z \<and> Q z y) xs ys"
  shows "\<exists>zs. collectTyped (map f xs) = WellTyped zs \<and> list_all2 Q zs ys"
  using assms
proof (induction rule: list_all2_induct)
  case Nil
  show ?case by simp
next
  case (Cons x xs y ys)
  obtain z where z: "f x = WellTyped z" "Q z y"
    using Cons.hyps(1) by blast
  obtain zs where zs: "collectTyped (map f xs) = WellTyped zs" "list_all2 Q zs ys"
    using Cons.IH by blast
  have "collectTyped (map f (x # xs)) = WellTyped (z # zs)" "list_all2 Q (z # zs) (y # ys)"
    using z zs by simp_all
  then show ?case by blast
qed

lemma list_all2_map_eq:
  assumes "list_all2 (\<lambda>x y. f x = g y) xs ys"
  shows "map f xs = map g ys"
  using assms by (induction rule: list_all2_induct) simp_all

lemma week_roundtrip:
  assumes "representsStoredData d j"
    and "map_of (curriculum d) (toStringInt (week_id w)) = Some wo"
    and "map_of wo =
           map_of (rev (map (\<lambda>c. (course_id c, projr (storedCourseOf lib c))) (courses w)))"
    and "\<forall>c \<in> set (courses w). \<exists>sc. storedCourseOf lib c = Inr sc"
    and "distinct (map course_id (courses w))"
    and "\<forall>c \<in> set (courses w). \<forall>t.
           startDate c = Some (DateOf t) \<or> endDate c = Some (DateOf t) \<longrightarrow>
           toISOString lib t \<noteq> [] \<and> newDateFromString lib (toISOString lib t) = DateOf t"
    and "week_id w1 = week_id w"
    and "map course_id (courses w1) = map course_id (courses w)"
  shows "\<exists>w2. overlayWeek lib j w1 = Inr (WellTyped w2)
           \<and> map (\<lambda>c. (completed c, startDate c, endDate c)) (courses w2)
               = map (\<lambda>c. (completed c, startDate c, endDate c)) (courses w)"
proof -
  let ?P = "\<lambda>c. (completed c, startDate c, endDate c)"
  obtain props ws where j: "j = JObject props"
    and c: "map_of props ''curriculum'' = Some (JObject ws)"
    and s: "sameDict representsWeek (curriculum d) ws"
    using representsStoredData_object [OF assms(1)] by blast
  obtain wj where m: "map_of ws (toStringInt (week_id w)) = Some wj"
    and rw: "representsWeek wo wj"
    using sameDict_lookup [OF s assms(2)] by blast
  obtain cs where wj: "wj = JObject cs" and sc: "sameDict representsCourse wo cs"
    using rw by (cases wj) (simp_all add: representsWeek_def)
  let ?wd = "Some (JObject cs)"
  have o: "overlayWeek lib j w1 =
             Inr (case collectTyped (map (overlayCourse lib ?wd) (courses w1)) of
                    IllTyped \<Rightarrow> IllTyped
                  | WellTyped updatedCourses \<Rightarrow> WellTyped (w1\<lparr>courses := updatedCourses\<rparr>))"
    by (simp add: overlayWeek_def j getProp_def c assms(7) m wj)
  have len: "length (courses w1) = length (courses w)"
    using assms(8) by (rule map_eq_imp_length_eq)
  have "list_all2 (\<lambda>c1 c. \<exists>r. overlayCourse lib ?wd c1 = WellTyped r \<and> ?P r = ?P c)
          (courses w1) (courses w)"
  proof (rule list_all2_all_nthI [OF len])
    fix i
    assume i1: "i < length (courses w1)"
    then have i: "i < length (courses w)"
      by (simp add: len)
    let ?c = "courses w ! i" and ?c1 = "courses w1 ! i"
    have cin: "?c \<in> set (courses w)"
      using i by simp
    obtain sc1 where sc1: "storedCourseOf lib ?c = Inr sc1"
      using assms(4) cin by blast
    have id: "course_id ?c1 = course_id ?c"
      using assms(8) i i1 by (metis nth_map)
    let ?xs = "map (\<lambda>c. (course_id c, projr (storedCourseOf lib c))) (courses w)"
    have "distinct (map fst (rev ?xs))"
      using assms(5) by (simp add: rev_map [symmetric] o_def)
    moreover have "(course_id ?c, sc1) \<in> set (rev ?xs)"
      using cin sc1 by force
    ultimately have "map_of (rev ?xs) (course_id ?c) = Some sc1"
      by (rule map_of_is_SomeI)
    then have mw: "map_of wo (course_id ?c1) = Some sc1"
      by (simp add: assms(3) id)
    have l: "\<forall>t. startDate ?c = Some (DateOf t) \<or> endDate ?c = Some (DateOf t) \<longrightarrow>
               toISOString lib t \<noteq> [] \<and> newDateFromString lib (toISOString lib t) = DateOf t"
      using assms(6) cin by blast
    show "\<exists>r. overlayCourse lib ?wd ?c1 = WellTyped r \<and> ?P r = ?P ?c"
      using overlayCourse_roundtrip [OF sc1 mw l sc] by auto
  qed
  then obtain rs where rs: "collectTyped (map (overlayCourse lib ?wd) (courses w1)) = WellTyped rs"
    and q: "list_all2 (\<lambda>r c. ?P r = ?P c) rs (courses w)"
    using collectTyped_list_all2
            [of "overlayCourse lib ?wd" "\<lambda>r c. ?P r = ?P c" "courses w1" "courses w"]
    by blast
  have "map ?P rs = map ?P (courses w)"
    using q by (rule list_all2_map_eq)
  then show ?thesis
    by (simp add: o rs)
qed

lemma mapE_list_all2:
  assumes "list_all2 (\<lambda>x y. \<exists>z. f x = Inr z \<and> Q z y) xs ys"
  shows "\<exists>zs. mapE f xs = Inr zs \<and> list_all2 Q zs ys"
  using assms
proof (induction rule: list_all2_induct)
  case Nil
  show ?case by simp
next
  case (Cons x xs y ys)
  obtain z where z: "f x = Inr z" "Q z y"
    using Cons.hyps(1) by blast
  obtain zs where zs: "mapE f xs = Inr zs" "list_all2 Q zs ys"
    using Cons.IH by blast
  have "mapE f (x # xs) = Inr (z # zs)" "list_all2 Q (z # zs) (y # ys)"
    using z zs by simp_all
  then show ?case by blast
qed

lemma storedDataToCurriculumState_roundtrip:
  assumes "foldE (putWeek lib) (weeks s) [] = Inr (curriculum d)"
    and "representsStoredData d j"
    and "distinct (map week_id (weeks s))"
    and "\<forall>w \<in> set (weeks s). distinct (map course_id (courses w))"
    and "\<forall>w \<in> set (weeks s). ''__proto__'' \<notin> set (map course_id (courses w))"
    and "\<forall>w \<in> set (weeks s). \<forall>c \<in> set (courses w).
           startDate c \<noteq> Some InvalidDate \<and> endDate c \<noteq> Some InvalidDate"
    and "\<forall>w \<in> set (weeks s). \<forall>c \<in> set (courses w). \<forall>t.
           startDate c = Some (DateOf t) \<or> endDate c = Some (DateOf t) \<longrightarrow>
           toISOString lib t \<noteq> [] \<and> newDateFromString lib (toISOString lib t) = DateOf t"
    and "map (\<lambda>w. (week_id w, map course_id (courses w))) (weeks seed)
           = map (\<lambda>w. (week_id w, map course_id (courses w))) (weeks s)"
  shows "\<exists>r. storedDataToCurriculumState lib j seed = Inr (WellTyped r)
           \<and> map (\<lambda>w. map (\<lambda>c. (completed c, startDate c, endDate c)) (courses w)) (weeks r)
               = map (\<lambda>w. map (\<lambda>c. (completed c, startDate c, endDate c)) (courses w)) (weeks s)"
proof -
  let ?P = "\<lambda>w. map (\<lambda>c. (completed c, startDate c, endDate c)) (courses w)"
  have v: "\<forall>w \<in> set (weeks s). \<forall>c \<in> set (courses w). \<exists>sc. storedCourseOf lib c = Inr sc"
    using assms(6) storedCourseOf_valid by blast
  obtain cur1 where f: "foldE (putWeek lib) (weeks s) [] = Inr cur1"
    and ch: "\<forall>w \<in> set (weeks s). \<exists>wo. map_of cur1 (toStringInt (week_id w)) = Some wo
              \<and> map_of wo =
                  map_of (rev (map (\<lambda>c. (course_id c, projr (storedCourseOf lib c)))
                                   (courses w)))"
    using foldE_putWeek [OF v assms(5,3), of "[]"] by blast
  have cur: "cur1 = curriculum d"
    using f assms(1) by simp
  have len: "length (weeks seed) = length (weeks s)"
    using assms(8) by (rule map_eq_imp_length_eq)
  have "list_all2 (\<lambda>w1 w. \<exists>z. overlayWeek lib j w1 = Inr z \<and> (\<exists>w2. z = WellTyped w2 \<and> ?P w2 = ?P w))
          (weeks seed) (weeks s)"
  proof (rule list_all2_all_nthI [OF len])
    fix n
    assume n1: "n < length (weeks seed)"
    then have n: "n < length (weeks s)"
      by (simp add: len)
    let ?w = "weeks s ! n" and ?w1 = "weeks seed ! n"
    have win: "?w \<in> set (weeks s)"
      using n by simp
    have "(week_id ?w1, map course_id (courses ?w1)) = (week_id ?w, map course_id (courses ?w))"
      using assms(8) n n1 by (metis (no_types, lifting) nth_map)
    then have i: "week_id ?w1 = week_id ?w"
      and ci: "map course_id (courses ?w1) = map course_id (courses ?w)"
      by simp_all
    obtain wo where wo: "map_of (curriculum d) (toStringInt (week_id ?w)) = Some wo"
      "map_of wo = map_of (rev (map (\<lambda>c. (course_id c, projr (storedCourseOf lib c))) (courses ?w)))"
      using ch win cur by blast
    have "\<exists>w2. overlayWeek lib j ?w1 = Inr (WellTyped w2) \<and> ?P w2 = ?P ?w"
      using week_roundtrip [OF assms(2) wo _ _ _ i ci] v assms(4,7) win by blast
    then show "\<exists>z. overlayWeek lib j ?w1 = Inr z \<and> (\<exists>w2. z = WellTyped w2 \<and> ?P w2 = ?P ?w)"
      by blast
  qed
  then obtain zs where m: "mapE (overlayWeek lib j) (weeks seed) = Inr zs"
    and q: "list_all2 (\<lambda>z w. \<exists>w2. z = WellTyped w2 \<and> ?P w2 = ?P w) zs (weeks s)"
    using mapE_list_all2
            [of "overlayWeek lib j" "\<lambda>z w. \<exists>w2. z = WellTyped w2 \<and> ?P w2 = ?P w"
                "weeks seed" "weeks s"]
    by blast
  have "list_all2 (\<lambda>z w. \<exists>w2. (\<lambda>x. x) z = WellTyped w2 \<and> ?P w2 = ?P w) zs (weeks s)"
    using q by simp
  then obtain ws2 where c: "collectTyped (map (\<lambda>x. x) zs) = WellTyped ws2"
    and q2: "list_all2 (\<lambda>w2 w. ?P w2 = ?P w) ws2 (weeks s)"
    using collectTyped_list_all2 [of "\<lambda>x. x" "\<lambda>w2 w. ?P w2 = ?P w" zs "weeks s"]
    by blast
  have "map ?P ws2 = map ?P (weeks s)"
    using q2 by (rule list_all2_map_eq)
  moreover have "collectTyped zs = WellTyped ws2"
    using c by simp
  ultimately show ?thesis
    by (simp add: storedDataToCurriculumState_def m)
qed

text \<open>
  Apart from a course with the id \<open>__proto__\<close> the round trip holds. On a store that works,
  saving a state and then loading with a seed of the same shape restores the completion
  flag and both dates of every course. The state has unique week ids and, in each week,
  unique course ids (the invariants of the data model), and its dates are valid; the seed
  has the same week ids and course ids in the same order. The library functions are the
  parameters of the model: \<open>JSON.parse\<close> of what \<open>JSON.stringify\<close> writes for the stored
  data is a value with the properties of that data, in any order, and \<open>new Date\<close> of the
  ISO string of a date of the state is that date.
\<close>

lemma save_then_load_restores_courses:
  assumes "failures st = []"
    and "distinct (map week_id (weeks s))"
    and "\<forall>w \<in> set (weeks s). distinct (map course_id (courses w))"
    and "\<forall>w \<in> set (weeks s). ''__proto__'' \<notin> set (map course_id (courses w))"
    and "\<forall>w \<in> set (weeks s). \<forall>c \<in> set (courses w).
           startDate c \<noteq> Some InvalidDate \<and> endDate c \<noteq> Some InvalidDate"
    and "\<forall>w \<in> set (weeks s). \<forall>c \<in> set (courses w). \<forall>t.
           startDate c = Some (DateOf t) \<or> endDate c = Some (DateOf t) \<longrightarrow>
           toISOString lib t \<noteq> [] \<and> newDateFromString lib (toISOString lib t) = DateOf t"
    and "toISOString lib (clock st) \<noteq> []"
    and "\<forall>d st1. curriculumStateToStoredData testHost lib s st = (Inr d, st1) \<longrightarrow>
           JSON_stringify lib d \<noteq> []
           \<and> (\<exists>j. JSON_parse lib (JSON_stringify lib d) = Inr j \<and> representsStoredData d j)"
    and "map (\<lambda>w. (week_id w, map course_id (courses w))) (weeks seed)
           = map (\<lambda>w. (week_id w, map course_id (courses w))) (weeks s)"
  shows "\<exists>st1 st2 r. saveCurriculumState testHost lib s st = (Inr True, st1)
           \<and> loadCurriculumState testHost lib seed st1 = (Inr (Some (WellTyped r)), st2)
           \<and> map (\<lambda>w. map (\<lambda>c. (completed c, startDate c, endDate c)) (courses w)) (weeks r)
               = map (\<lambda>w. map (\<lambda>c. (completed c, startDate c, endDate c)) (courses w)) (weeks s)"
proof -
  have v: "\<forall>w \<in> set (weeks s). \<forall>c \<in> set (courses w). \<exists>sc. storedCourseOf lib c = Inr sc"
    using assms(5) storedCourseOf_valid by blast
  obtain cur where f: "foldE (putWeek lib) (weeks s) [] = Inr cur"
    using foldE_putWeek [OF v assms(4,2), of "[]"] by blast
  define d where "d = \<lparr>version = STORAGE_VERSION, lastUpdated = toISOString lib (clock st),
                          curriculum = cur\<rparr>"
  define st1 where "st1 = st\<lparr>items := (items st)(''__localStorage_test__'' := None,
                                                 STORAGE_KEY \<mapsto> JSON_stringify lib d)\<rparr>"
  have "curriculumStateToStoredData testHost lib s st = (Inr d, st)"
    unfolding d_def by (rule curriculumStateToStoredData_testHost [OF f])
  then obtain j where ne: "JSON_stringify lib d \<noteq> []"
    and p: "JSON_parse lib (JSON_stringify lib d) = Inr j"
    and rj: "representsStoredData d j"
    using assms(8) by blast
  have sv: "saveCurriculumState testHost lib s st = (Inr True, st1)"
    unfolding st1_def by (rule saveCurriculumState_testHost [OF assms(1) f d_def])
  have f1: "failures st1 = []" and i1: "items st1 STORAGE_KEY = Some (JSON_stringify lib d)"
    by (simp_all add: st1_def assms(1))
  have val: "validateStoredData j"
    by (rule representsStoredData_valid [OF rj]) (simp_all add: d_def STORAGE_VERSION_def assms(7))
  have ver: "getProp j ''version'' = Some (JString STORAGE_VERSION)"
    using representsStoredData_object [OF rj] by (auto simp: getProp_def d_def)
  have "foldE (putWeek lib) (weeks s) [] = Inr (curriculum d)"
    by (simp add: f d_def)
  from storedDataToCurriculumState_roundtrip [OF this rj assms(2,3,4,5,6,9)]
  obtain r where r: "storedDataToCurriculumState lib j seed = Inr (WellTyped r)"
    and e: "map (\<lambda>w. map (\<lambda>c. (completed c, startDate c, endDate c)) (courses w)) (weeks r)
              = map (\<lambda>w. map (\<lambda>c. (completed c, startDate c, endDate c)) (courses w)) (weeks s)"
    by blast
  have "loadCurriculumState testHost lib seed st1
          = (Inr (Some (WellTyped r)), st1\<lparr>items := (items st1)(''__localStorage_test__'' := None)\<rparr>)"
    by (simp add: loadCurriculumState_present [OF f1 i1 ne refl refl] p val ver r)
  with sv e show ?thesis by blast
qed

lemma roundTripState_stored:
  "curriculumStateToStoredData testHost roundTripLib roundTripState emptyStorage
     = (Inr roundTripData, emptyStorage)"
  by (simp add: curriculumStateToStoredData_def bindJ_def liftE_def returnJ_def testHost_def
        roundTripState_def roundTripLib_def roundTripData_def emptyStorage_def putWeek_def
        putCourse_def storedCourseOf_def toStringInt_def showNat.simps digitChar_def
        STORAGE_VERSION_def Let_def)

lemma roundTripJson_represents: "representsStoredData roundTripData roundTripJson"
  by (simp add: representsStoredData_def representsWeek_def representsCourse_def sameDict_def
        roundTripData_def roundTripJson_def insert_commute)

lemma save_then_load_example:
  "\<exists>st1 st2 r.
     saveCurriculumState testHost roundTripLib roundTripState emptyStorage = (Inr True, st1)
     \<and> loadCurriculumState testHost roundTripLib roundTripSeed st1 = (Inr (Some (WellTyped r)), st2)
     \<and> map (\<lambda>w. map (\<lambda>c. (completed c, startDate c, endDate c)) (courses w)) (weeks r)
         = [[(True, None, None)],
            [(True, Some (DateOf 1705276800000), Some (DateOf 1705708800000)),
             (False, None, None)]]"
proof -
  have h1: "failures emptyStorage = []"
    by (simp add: emptyStorage_def)
  have h2: "distinct (map week_id (weeks roundTripState))"
    by (simp add: roundTripState_def)
  have h3: "\<forall>w \<in> set (weeks roundTripState). distinct (map course_id (courses w))"
    by (simp add: roundTripState_def)
  have h4: "\<forall>w \<in> set (weeks roundTripState). ''__proto__'' \<notin> set (map course_id (courses w))"
    by (simp add: roundTripState_def)
  have h5: "\<forall>w \<in> set (weeks roundTripState). \<forall>c \<in> set (courses w).
              startDate c \<noteq> Some InvalidDate \<and> endDate c \<noteq> Some InvalidDate"
    by (simp add: roundTripState_def)
  have h6: "\<forall>w \<in> set (weeks roundTripState). \<forall>c \<in> set (courses w). \<forall>t.
              startDate c = Some (DateOf t) \<or> endDate c = Some (DateOf t) \<longrightarrow>
              toISOString roundTripLib t \<noteq> []
              \<and> newDateFromString roundTripLib (toISOString roundTripLib t) = DateOf t"
    by (simp add: roundTripState_def roundTripLib_def)
  have h7: "toISOString roundTripLib (clock emptyStorage) \<noteq> []"
    by (simp add: roundTripLib_def)
  have h8: "\<forall>d st1. curriculumStateToStoredData testHost roundTripLib roundTripState emptyStorage
                       = (Inr d, st1) \<longrightarrow>
              JSON_stringify roundTripLib d \<noteq> []
              \<and> (\<exists>j. JSON_parse roundTripLib (JSON_stringify roundTripLib d) = Inr j
                     \<and> representsStoredData d j)"
    using roundTripJson_represents
    by (simp add: roundTripState_stored) (simp add: roundTripLib_def)
  have h9: "map (\<lambda>w. (week_id w, map course_id (courses w))) (weeks roundTripSeed)
              = map (\<lambda>w. (week_id w, map course_id (courses w))) (weeks roundTripState)"
    by (simp add: roundTripSeed_def roundTripState_def mkCourse_def)
  have v: "map (\<lambda>w. map (\<lambda>c. (completed c, startDate c, endDate c)) (courses w))
               (weeks roundTripState)
             = [[(True, None, None)],
                [(True, Some (DateOf 1705276800000), Some (DateOf 1705708800000)),
                 (False, None, None)]]"
    by (simp add: roundTripState_def)
  show ?thesis
    using save_then_load_restores_courses [OF h1 h2 h3 h4 h5 h6 h7 h8 h9]
    by (simp only: v)
qed

subsection \<open>A course with the id \<open>__proto__\<close> is lost\<close>

text \<open>
  C3 fails at the state \<open>protoState\<close>: one week with one course, whose id is \<open>__proto__\<close>,
  completed, with a valid start date. The store works, and the library functions are as the
  round trip needs them: \<open>new Date\<close> reads back the ISO string of the date, and
  \<open>JSON.parse\<close> gives a value with the properties of the stored data. The save returns
  \<open>true\<close>, but the data it writes has no entry for the course, because assigning to the key
  \<open>__proto__\<close> of the week object stores no property. The load with the seed of the same
  shape then finds the prototype under that key, and where the claim has the course
  completed with its start date, the load returns a course whose \<open>completed\<close> is
  \<open>undefined\<close>.
\<close>

theorem save_then_load_loses_proto_course:
  "map (\<lambda>w. (week_id w, map course_id (courses w))) (weeks protoSeed)
     = map (\<lambda>w. (week_id w, map course_id (courses w))) (weeks protoState)
   \<and> map (\<lambda>w. map (\<lambda>c. (completed c, startDate c, endDate c)) (courses w)) (weeks protoState)
       = [[(True, Some (DateOf 1705276800000), None)]]
   \<and> newDateFromString protoLib (toISOString protoLib 1705276800000) = DateOf 1705276800000
   \<and> curriculumStateToStoredData testHost protoLib protoState emptyStorage
       = (Inr protoData, emptyStorage)
   \<and> JSON_parse protoLib (JSON_stringify protoLib protoData) = Inr protoJson
   \<and> representsStoredData protoData protoJson
   \<and> fst (saveCurriculumState testHost protoLib protoState emptyStorage) = Inr True
   \<and> fst (loadCurriculumState testHost protoLib protoSeed
            (snd (saveCurriculumState testHost protoLib protoState emptyStorage)))
       = Inr (Some IllTyped)"
proof -
  note ev = curriculumStateToStoredData_def bindJ_def liftE_def returnJ_def testHost_def
    protoState_def protoLib_def roundTripLib_def protoData_def emptyStorage_def putWeek_def
    putCourse_def storedCourseOf_def toStringInt_def showNat.simps digitChar_def
    STORAGE_VERSION_def
  have 1: "map (\<lambda>w. (week_id w, map course_id (courses w))) (weeks protoSeed)
             = map (\<lambda>w. (week_id w, map course_id (courses w))) (weeks protoState)"
    by (simp add: protoSeed_def protoState_def mkCourse_def)
  have 2: "map (\<lambda>w. map (\<lambda>c. (completed c, startDate c, endDate c)) (courses w)) (weeks protoState)
             = [[(True, Some (DateOf 1705276800000), None)]]"
    by (simp add: protoState_def)
  have 3: "newDateFromString protoLib (toISOString protoLib 1705276800000) = DateOf 1705276800000"
    by (simp add: protoLib_def roundTripLib_def)
  have 4: "curriculumStateToStoredData testHost protoLib protoState emptyStorage
             = (Inr protoData, emptyStorage)"
    by (simp add: ev)
  have 5: "JSON_parse protoLib (JSON_stringify protoLib protoData) = Inr protoJson"
    by (simp add: protoLib_def roundTripLib_def)
  have 6: "representsStoredData protoData protoJson"
    by (simp add: representsStoredData_def representsWeek_def sameDict_def protoData_def
          protoJson_def)
  have 7: "saveCurriculumState testHost protoLib protoState emptyStorage
             = (Inr True, emptyStorage\<lparr>items := [STORAGE_KEY \<mapsto> ''<saved>'']\<rparr>)"
    by (simp add: saveCurriculumState_def writeStoredData_def isLocalStorageAvailable_def
          tryCatch_def testSetItem_def STORAGE_KEY_def ev)
  have 8: "fst (loadCurriculumState testHost protoLib protoSeed
                  (emptyStorage\<lparr>items := [STORAGE_KEY \<mapsto> ''<saved>'']\<rparr>))
             = Inr (Some IllTyped)"
    by (simp add: loadCurriculumState_def isLocalStorageAvailable_def tryCatch_def bindJ_def
          returnJ_def liftE_def testHost_def testSetItem_def emptyStorage_def protoLib_def
          roundTripLib_def protoJson_def protoSeed_def mkCourse_def
          validateStoredData_def validWeekData_def validCourseData_def
          getProp_def getPropOpt_def ownKeys_def STORAGE_KEY_def STORAGE_VERSION_def
          storedDataToCurriculumState_def overlayWeek_def overlayCourse_def inheritedTruthy_def
          objectPrototypeMembers_def toStringInt_def showNat.simps digitChar_def)
  from 1 2 3 4 5 6 7 8 show ?thesis
    by simp
qed

section \<open>Properties of the number arithmetic\<close>

text \<open>
  \<open>ilog2 x\<close> is the binary exponent of a positive \<open>x\<close>, and \<open>toDouble x\<close> is a multiple of
  the unit in the last place \<open>2 ^ (ilog2 x - 52)\<close> at a distance of at most half a unit from
  \<open>x\<close>.
\<close>

lemma bitLength_bounds:
  "0 < a \<Longrightarrow> 0 < bitLength a \<and> 2 ^ nat (bitLength a - 1) \<le> a \<and> a < 2 ^ nat (bitLength a)"
proof (induction a rule: bitLength.induct)
  case (1 a)
  have b: "bitLength a = 1 + bitLength (a div 2)"
    using "1.prems" by (subst bitLength.simps) simp
  show ?case
  proof (cases "a div 2 = 0")
    case True
    then have "a = 1" using "1.prems" by presburger
    moreover have "bitLength 0 = 0" by (subst bitLength.simps) simp
    ultimately show ?thesis using b by simp
  next
    case False
    then have p: "0 < a div 2" using "1.prems" by presburger
    let ?l = "bitLength (a div 2)"
    have ih: "0 < ?l" "2 ^ nat (?l - 1) \<le> a div 2" "a div 2 < 2 ^ nat ?l"
      using "1.IH" [OF _ p] "1.prems" by simp_all
    have n: "nat ?l = Suc (nat (?l - 1))" "nat (1 + ?l) = Suc (nat ?l)"
      using ih(1) by simp_all
    have "(2::int) ^ nat ?l \<le> a"
      using ih(2) by (simp add: n(1))
    moreover have "a < 2 ^ nat (1 + ?l)"
      using ih(3) by (simp add: n(2))
    ultimately show ?thesis
      using ih(1) by (simp add: b)
  qed
qed

lemma ilog2_bounds:
  assumes "0 < x"
  shows "2 powi ilog2 x \<le> x \<and> x < 2 powi (ilog2 x + 1)"
proof -
  obtain a b where q: "quotient_of x = (a, b)" by (cases "quotient_of x")
  have bp: "0 < b" using q by (rule quotient_of_denom_pos)
  have x: "x = of_int a / of_int b" using q by (rule quotient_of_div)
  have ap: "0 < a"
    using assms bp unfolding x by (simp add: zero_less_divide_iff)
  let ?la = "bitLength a" and ?lb = "bitLength b"
  note A = bitLength_bounds [OF ap] and B = bitLength_bounds [OF bp]
  have pw: "(2::rat) powi k = of_int (2 ^ nat k)" if "0 \<le> k" for k
    using that by (simp add: power_int_def)
  have a1: "(2::rat) powi (?la - 1) \<le> of_int a"
  proof -
    have "0 \<le> ?la - 1" using A by simp
    then have "(2::rat) powi (?la - 1) = of_int (2 ^ nat (?la - 1))" by (rule pw)
    moreover have "(of_int (2 ^ nat (?la - 1)) :: rat) \<le> of_int a"
      using A by (simp only: of_int_le_iff)
    ultimately show ?thesis by simp
  qed
  have a2: "of_int a < (2::rat) powi ?la"
  proof -
    have "0 \<le> ?la" using A by simp
    then have "(2::rat) powi ?la = of_int (2 ^ nat ?la)" by (rule pw)
    moreover have "(of_int a :: rat) < of_int (2 ^ nat ?la)"
      using A by (simp only: of_int_less_iff)
    ultimately show ?thesis by simp
  qed
  have b1: "(2::rat) powi (?lb - 1) \<le> of_int b"
  proof -
    have "0 \<le> ?lb - 1" using B by simp
    then have "(2::rat) powi (?lb - 1) = of_int (2 ^ nat (?lb - 1))" by (rule pw)
    moreover have "(of_int (2 ^ nat (?lb - 1)) :: rat) \<le> of_int b"
      using B by (simp only: of_int_le_iff)
    ultimately show ?thesis by simp
  qed
  have b2: "of_int b < (2::rat) powi ?lb"
  proof -
    have "0 \<le> ?lb" using B by simp
    then have "(2::rat) powi ?lb = of_int (2 ^ nat ?lb)" by (rule pw)
    moreover have "(of_int b :: rat) < of_int (2 ^ nat ?lb)"
      using B by (simp only: of_int_less_iff)
    ultimately show ?thesis by simp
  qed
  have bq: "(0::rat) < of_int b"
    using bp by simp
  have "(2::rat) powi ?la = 2 powi (?la - ?lb + 1) * 2 powi (?lb - 1)"
    by (simp add: power_int_add [symmetric])
  also have "\<dots> \<le> 2 powi (?la - ?lb + 1) * of_int b"
    using b1 by (intro mult_left_mono) simp_all
  finally have "(of_int a :: rat) < 2 powi (?la - ?lb + 1) * of_int b"
    using a2 by simp
  then have up: "x < 2 powi (?la - ?lb + 1)"
    unfolding x using bq by (simp add: pos_divide_less_eq)
  have "2 powi (?la - ?lb - 1) * of_int b \<le> (2::rat) powi (?la - ?lb - 1) * 2 powi ?lb"
    using b2 by (intro mult_left_mono) simp_all
  also have "\<dots> = 2 powi (?la - 1)"
    by (simp add: power_int_add [symmetric])
  finally have "2 powi (?la - ?lb - 1) * of_int b \<le> (of_int a :: rat)"
    using a1 by simp
  then have lo: "2 powi (?la - ?lb - 1) \<le> x"
    unfolding x using bq by (simp add: pos_le_divide_eq)
  show ?thesis
    using up lo by (auto simp: ilog2_def q Let_def not_le)
qed

lemma roundTiesToEven_nearest: "\<bar>of_int (roundTiesToEven y) - y\<bar> \<le> 1 / 2"
proof -
  define f where "f = \<lfloor>y\<rfloor>"
  define r where "r = y - of_int f"
  have r: "0 \<le> r" "r < 1"
    unfolding r_def f_def by linarith+
  consider (down) "roundTiesToEven y = f" "r \<le> 1 / 2"
    | (up) "roundTiesToEven y = f + 1" "1 / 2 \<le> r"
    unfolding roundTiesToEven_def Let_def f_def [symmetric] r_def [symmetric]
    by (cases "r < 1 / 2"; cases "1 / 2 < r"; cases "even f") auto
  then show ?thesis
  proof cases
    case down
    have "of_int (roundTiesToEven y) - y = - r"
      by (simp add: down r_def)
    then show ?thesis using r down by simp
  next
    case up
    have "of_int (roundTiesToEven y) - y = 1 - r"
      by (simp add: up r_def)
    then show ?thesis using r up by simp
  qed
qed

lemma toDouble_nearest:
  assumes "0 < x"
  shows "toDouble x = of_int (roundTiesToEven (x / 2 powi (ilog2 x - 52))) * 2 powi (ilog2 x - 52)
         \<and> \<bar>toDouble x - x\<bar> \<le> 2 powi (ilog2 x - 52) / 2"
proof -
  let ?u = "(2::rat) powi (ilog2 x - 52)"
  have u: "0 < ?u" by simp
  have t: "toDouble x = of_int (roundTiesToEven (x / ?u)) * ?u"
    using assms by (simp add: toDouble_def Let_def)
  have "\<bar>of_int (roundTiesToEven (x / ?u)) - x / ?u\<bar> * ?u \<le> 1 / 2 * ?u"
    using roundTiesToEven_nearest [of "x / ?u"] u by (intro mult_right_mono) simp_all
  moreover have "\<bar>of_int (roundTiesToEven (x / ?u)) - x / ?u\<bar> * ?u
                   = \<bar>of_int (roundTiesToEven (x / ?u)) * ?u - x\<bar>"
  proof -
    have "\<bar>of_int (roundTiesToEven (x / ?u)) - x / ?u\<bar> * ?u
            = \<bar>(of_int (roundTiesToEven (x / ?u)) - x / ?u) * ?u\<bar>"
      using u by (simp add: abs_mult)
    also have "(of_int (roundTiesToEven (x / ?u)) - x / ?u) * ?u
                 = of_int (roundTiesToEven (x / ?u)) * ?u - x"
      using u by (simp add: left_diff_distrib)
    finally show ?thesis .
  qed
  ultimately show ?thesis
    by (simp add: t)
qed

section \<open>The reducer ends in a recomputation\<close>

text \<open>
  On every path of the reducer that passes its guards the result is a recomputed state: the
  progress of each week is \<open>calculateWeekProgress\<close> of its courses and the overall progress
  is \<open>calculateOverallProgress\<close> of the weeks.
\<close>

lemma curriculumReducer_recomputes:
  assumes "(action_type a \<in> {''SET_START_DATE'', ''SET_END_DATE''}
             \<and> \<not> falsyNumber (weekId (payload a)) \<and> \<not> falsyString (courseId (payload a))
             \<and> \<not> falsyObject (date (payload a)))
           \<or> (action_type a = ''TOGGLE_COMPLETION''
               \<and> \<not> falsyNumber (weekId (payload a)) \<and> \<not> falsyString (courseId (payload a)))
           \<or> (action_type a = ''LOAD_DATA'' \<and> data (payload a) \<noteq> None)"
    and "r = curriculumReducer s a"
  shows "(\<forall>w \<in> set (weeks r). progress w = calculateWeekProgress (courses w))
         \<and> overallProgress r = calculateOverallProgress (weeks r)"
proof -
  obtain s1 where "r = updateAllProgress s1"
    using assms by (auto simp: curriculumReducer_def Let_def)
  then show ?thesis
    using updateAllProgress_fresh updateAllProgress_overall by blast
qed

end
